theory Spec2Isabelle
  imports Main
begin

section \<open>The response objects of the Disk client\<close>

text \<open>
  The client turns calls into HTTP requests against the Disk REST service and decodes
  the JSON answers into the objects below. The Go integers of the source (offsets,
  limits, status codes, slice lengths) are modelled as unbounded \<open>int\<close>: the only
  arithmetic is \<open>offset += 100\<close> in the listing loop, which stays below the number of
  items already held in memory, far from the 64-bit limit.
\<close>

text \<open>Status of an operation: the constants are \<open>iota\<close> values 0, 1 and 2.\<close>

datatype Status = StatusFailure | StatusInProgress | StatusSuccess

text \<open>The server's error response object.\<close>

record Error =
  StatusCode :: int
  Message :: string
  Description :: string
  Err :: string

text \<open>The Link response object.\<close>

record Link =
  Href :: string
  Method :: string
  Templated :: bool

text \<open>The type of a remote resource; \<open>ResourceTypeUnknown\<close> is the zero value.\<close>

datatype ResourceType = ResourceTypeUnknown | ResourceTypeDir | ResourceTypeFile

text \<open>
  A resource and a page of resources refer to each other: a directory resource may embed
  the page of its children (\<open>SubList\<close>, a pointer, so possibly nil), and a page holds
  pointers to resources. Times are kept as the text the server sent.
\<close>

datatype Resource = Resource
    (Type: ResourceType) (Name: string) (Created: string) (Modified: string)
    (Path: string) (Hash: string) (Size: int) (SubList: "ResourceList option")
  and ResourceList = ResourceList
    (Items: "Resource option list") (Limit: int) (Offset: int)

text \<open>
  A Go \<open>error\<close> value: a text error made by \<open>errors.New\<close> or \<open>fmt.Errorf\<close>, the
  decoded server error (\<open>*Error\<close>), or an error handed up from net/http, io or
  encoding/json.
\<close>

datatype error = ErrorString string | APIError Error | ForeignError string

text \<open>A call either returns its results or panics (a nil pointer is dereferenced).\<close>

datatype 'a outcome = Panics | Returns 'a

section \<open>Strings and numbers\<close>

text \<open>\<open>strconv.Itoa\<close>: the decimal text of an integer.\<close>

fun digits :: "nat \<Rightarrow> string" where
  "digits n = (if n < 10 then [char_of (48 + n)] else digits (n div 10) @ [char_of (48 + n mod 10)])"

declare digits.simps [simp del]

definition Itoa :: "int \<Rightarrow> string" where
  "Itoa i = (if i < 0 then CHR ''-'' # digits (nat (- i)) else digits (nat i))"

text \<open>\<open>strings.Contains\<close>: whether \<open>substr\<close> occurs in \<open>s\<close>.\<close>

fun Contains :: "string \<Rightarrow> string \<Rightarrow> bool" where
  "Contains [] substr = (substr = [])"
| "Contains (x # xs) substr = (take (length substr) (x # xs) = substr \<or> Contains xs substr)"

text \<open>
  \<open>strings.Split\<close> with a one-byte separator, as the source calls it with \<open>"/"\<close>: the
  pieces between the separators; never an empty list.
\<close>

fun Split :: "string \<Rightarrow> char \<Rightarrow> string list" where
  "Split [] sep = [[]]"
| "Split (x # xs) sep =
     (if x = sep then [] # Split xs sep
      else (case Split xs sep of [] \<Rightarrow> [[x]] | p # ps \<Rightarrow> (x # p) # ps))"

text \<open>The double quote character.\<close>

definition dquote :: char where
  "dquote = CHR 0x22"

section \<open>Decoding a resource type\<close>

text \<open>
  \<open>ResourceType.UnmarshalJSON\<close>: the receiver is written only when the value is a
  quoted string; the function returns the receiver after the call and the error.
\<close>

definition UnmarshalJSON :: "ResourceType \<Rightarrow> string \<Rightarrow> ResourceType \<times> error option" where
  "UnmarshalJSON rt data =
     (let s = data in
      if length s < 2 \<or> s ! 0 \<noteq> dquote \<or> s ! (length s - 1) \<noteq> dquote
      then (rt, Some (ErrorString (''invalid type JSON value '' @ s)))
      else let v = take (length s - 1 - 1) (drop 1 s) in
        if v = ''dir'' then (ResourceTypeDir, None)
        else if v = ''file'' then (ResourceTypeFile, None)
        else (ResourceTypeUnknown, None))"

section \<open>Links\<close>

definition IsOperation :: "Link \<Rightarrow> bool" where
  "IsOperation l = Contains (Href l) ''/disk/operations''"

text \<open>
  \<open>Operation\<close> parses the link with net/url and splits the request URI of the parsed
  URL. The parser is outside this package: \<open>RequestURI\<close> stands for \<open>url.Parse\<close>
  followed by \<open>URL.RequestURI\<close>, with \<open>None\<close> when parsing fails.
\<close>

definition Operation :: "(string \<Rightarrow> string option) \<Rightarrow> Link \<Rightarrow> string" where
  "Operation RequestURI l =
     (if IsOperation l then
        (case RequestURI (Href l) of
           Some uri \<Rightarrow>
             (let parts = Split uri CHR ''/'' in
              if length parts > 0 then parts ! (length parts - 1) else '''')
         | None \<Rightarrow> '''')
      else '''')"

section \<open>Requests, responses and the world outside the package\<close>

text \<open>
  \<open>url.Values\<close> as the source uses it: \<open>Set\<close> replaces the value of a key. The model
  keeps the pairs as they were set; \<open>Encode\<close>, which orders and escapes them for the
  wire, is not modelled.
\<close>

type_synonym Values = "(string \<times> string) list"

fun Values_Set :: "string \<Rightarrow> string \<Rightarrow> Values \<Rightarrow> Values" where
  "Values_Set k v [] = [(k, v)]"
| "Values_Set k v ((k', v') # vals) =
     (if k = k' then (k, v) # vals else (k', v') # Values_Set k v vals)"

text \<open>An outgoing request: method, address, headers, query values and body.\<close>

record Request =
  req_Method :: string
  req_URL :: string
  req_Header :: Values
  req_RawQuery :: Values
  req_Body :: "string option"

text \<open>
  An incoming response: the status code, and what \<open>ioutil.ReadAll\<close> yields on its
  body: the bytes read and the error that stopped the reading, if any.
\<close>

record Response =
  resp_StatusCode :: int
  resp_Body :: string
  resp_BodyErr :: "error option"

definition ReadAll :: "Response \<Rightarrow> string \<times> error option" where
  "ReadAll r = (resp_Body r, resp_BodyErr r)"

text \<open>
  What the package calls but does not define:
  \<^item> \<open>http_NewRequest\<close>: the error of \<open>http.NewRequest\<close> for a method and an
    address (an invalid method, an address that does not parse), \<open>None\<close> when it
    builds the request;
  \<^item> \<open>HTTP_Do\<close>: the answer of \<open>Client.HTTP.Do\<close> to a request, which may depend on
    the requests sent before it (the first argument);
  \<^item> \<open>json_Resource\<close>, \<open>json_Link\<close>, \<open>json_Error\<close>, \<open>json_Status\<close>:
    \<open>json.Unmarshal\<close> of a body into a fresh \<open>Resource\<close>, into a pointer to a fresh
    \<open>Link\<close> (which JSON \<open>null\<close> sets to nil), into a given \<open>Error\<close>, and into the
    status structure of \<open>OpStatus\<close>; each gives the decoded value and the error;
  \<^item> \<open>url_RequestURI\<close>: \<open>url.Parse\<close> followed by \<open>URL.RequestURI\<close>.
\<close>

record Env =
  http_NewRequest :: "string \<Rightarrow> string \<Rightarrow> error option"
  HTTP_Do :: "Request list \<Rightarrow> Request \<Rightarrow> error + Response"
  json_Resource :: "string \<Rightarrow> Resource \<times> error option"
  json_Link :: "string \<Rightarrow> Link option \<times> error option"
  json_Error :: "string \<Rightarrow> Error \<Rightarrow> Error \<times> error option"
  json_Status :: "string \<Rightarrow> string \<times> error option"
  url_RequestURI :: "string \<Rightarrow> string option"

text \<open>The client: the HTTP field of the source is the \<open>HTTP_Do\<close> of the environment.\<close>

record Client =
  URL :: string
  UserAgent :: string
  token :: string

definition defaultUserAgent :: string where
  "defaultUserAgent = ''Yad/0.1.0''"

definition defaultURL :: string where
  "defaultURL = ''https://cloud-api.yandex.net/v1/disk/''"

definition NewClient :: "string \<Rightarrow> Client" where
  "NewClient tok = \<lparr>URL = defaultURL, UserAgent = defaultUserAgent, token = tok\<rparr>"

section \<open>The transport\<close>

text \<open>
  \<open>newRequest\<close> sets the headers when \<open>http.NewRequest\<close> succeeded and then writes
  the query into \<open>req.URL\<close> in either case: when \<open>http.NewRequest\<close> failed, \<open>req\<close> is
  nil and that write panics.
\<close>

definition newRequest ::
    "Env \<Rightarrow> Client \<Rightarrow> string \<Rightarrow> string \<Rightarrow> Values \<Rightarrow> string option
      \<Rightarrow> (Request \<times> error option) outcome" where
  "newRequest env c method url vals body =
     (case http_NewRequest env method (URL c @ url) of
        Some err \<Rightarrow> Panics
      | None \<Rightarrow>
          Returns
            (\<lparr>req_Method = method, req_URL = URL c @ url,
              req_Header =
                Values_Set ''Content-Type'' ''application/json''
                  (Values_Set ''Accept'' ''application/json''
                    (Values_Set ''Authorization'' (''OAuth '' @ token c)
                      (Values_Set ''User-Agent'' (UserAgent c) []))),
              req_RawQuery = vals, req_Body = body\<rparr>, None))"

text \<open>Sending a request appends it to the log of requests sent.\<close>

definition Do :: "Env \<Rightarrow> Request \<Rightarrow> Request list \<Rightarrow> (error + Response) \<times> Request list" where
  "Do env req log = (HTTP_Do env log req, log @ [req])"

definition readErrBody :: "Env \<Rightarrow> Response \<Rightarrow> error" where
  "readErrBody env r =
     (case ReadAll r of
        (b, Some err) \<Rightarrow> err
      | (b, None) \<Rightarrow>
          (case json_Error env b \<lparr>StatusCode = resp_StatusCode r, Message = [],
                                    Description = [], Err = []\<rparr> of
             (e, Some err) \<Rightarrow> err
           | (e, None) \<Rightarrow> APIError e))"

text \<open>A nil byte slice is the empty string.\<close>

definition readBody :: "Env \<Rightarrow> Response \<Rightarrow> string \<times> error option" where
  "readBody env r =
     (if resp_StatusCode r < 200 \<or> resp_StatusCode r \<ge> 300
      then ([], Some (readErrBody env r))
      else ReadAll r)"

definition do ::
    "Env \<Rightarrow> Client \<Rightarrow> string \<Rightarrow> string \<Rightarrow> Values \<Rightarrow> Request list
      \<Rightarrow> (string \<times> error option) outcome \<times> Request list" where
  "do env c method url vals log =
     (case newRequest env c method url vals None of
        Panics \<Rightarrow> (Panics, log)
      | Returns (req, Some err) \<Rightarrow> (Returns ([], Some err), log)
      | Returns (req, None) \<Rightarrow>
          (case Do env req log of
             (Inl err, log') \<Rightarrow> (Returns ([], Some err), log')
           | (Inr resp, log') \<Rightarrow>
               (case readBody env resp of
                  (body, Some err) \<Rightarrow> (Returns ([], Some err), log')
                | (body, None) \<Rightarrow> (Returns (body, None), log'))))"

text \<open>
  \<open>requestLink\<close> decodes through a pointer to the link pointer, reads
  \<open>link.Templated\<close> before it looks at the decoding error, and returns the link
  together with that error.
\<close>

definition requestLink ::
    "Env \<Rightarrow> Client \<Rightarrow> string \<Rightarrow> string \<Rightarrow> Values \<Rightarrow> Request list
      \<Rightarrow> (Link option \<times> error option) outcome \<times> Request list" where
  "requestLink env c method url vals log =
     (case do env c method url vals log of
        (Panics, log') \<Rightarrow> (Panics, log')
      | (Returns (body, Some err), log') \<Rightarrow> (Returns (None, Some err), log')
      | (Returns (body, None), log') \<Rightarrow>
          (case json_Link env body of
             (None, err) \<Rightarrow> (Panics, log')
           | (Some link, err) \<Rightarrow>
               if Templated link
               then (Returns (None, Some (ErrorString ''unsupported templated link'')), log')
               else (Returns (Some link, err), log')))"

definition requestOptionalOp ::
    "Env \<Rightarrow> Client \<Rightarrow> string \<Rightarrow> string \<Rightarrow> Values \<Rightarrow> Request list
      \<Rightarrow> (Link option \<times> error option) outcome \<times> Request list" where
  "requestOptionalOp env c method url vals log =
     (case newRequest env c method url vals None of
        Panics \<Rightarrow> (Panics, log)
      | Returns (req, Some err) \<Rightarrow> (Returns (None, Some err), log)
      | Returns (req, None) \<Rightarrow>
          (case Do env req log of
             (Inl err, log') \<Rightarrow> (Returns (None, Some err), log')
           | (Inr resp, log') \<Rightarrow>
               if resp_StatusCode resp = 204 then (Returns (None, None), log')
               else if resp_StatusCode resp = 202 then
                 (case readBody env resp of
                    (body, Some err) \<Rightarrow> (Returns (None, Some err), log')
                  | (body, None) \<Rightarrow>
                      (case json_Link env body of
                         (link, Some err) \<Rightarrow> (Returns (None, Some err), log')
                       | (None, None) \<Rightarrow> (Panics, log')
                       | (Some link, None) \<Rightarrow>
                           if Templated link
                           then (Returns (None, Some (ErrorString ''unsupported templated link'')), log')
                           else (Returns (Some link, None), log')))
               else (Returns (None, Some (readErrBody env resp)), log')))"

section \<open>The operations of the client\<close>

text \<open>\<open>List\<close>: one page of a directory, sorted by name.\<close>

definition List ::
    "Env \<Rightarrow> Client \<Rightarrow> string \<Rightarrow> int \<Rightarrow> int \<Rightarrow> Request list
      \<Rightarrow> (ResourceList option \<times> error option) outcome \<times> Request list" where
  "List env c path offset limit log =
     (let vals = Values_Set ''sort'' ''name''
                   (Values_Set ''limit'' (Itoa limit)
                     (Values_Set ''offset'' (Itoa offset)
                       (Values_Set ''path'' path [])))
      in case do env c ''GET'' ''resources'' vals log of
           (Panics, log') \<Rightarrow> (Panics, log')
         | (Returns (body, Some err), log') \<Rightarrow> (Returns (None, Some err), log')
         | (Returns (body, None), log') \<Rightarrow>
             (case json_Resource env body of
                (res, Some err) \<Rightarrow> (Returns (None, Some err), log')
              | (res, None) \<Rightarrow>
                  if Type res \<noteq> ResourceTypeDir
                  then (Returns (None, Some (ErrorString ''not a directory'')), log')
                  else (Returns (SubList res, None), log')))"

text \<open>
  \<open>ListAll\<close>: the loop asks for pages of 100 and appends them. It reads \<open>l.Items\<close>
  without a nil check, so a nil page panics; it may also never stop, which is the value
  \<open>None\<close> here.
\<close>

partial_function (option) ListAll_loop ::
    "Env \<Rightarrow> Client \<Rightarrow> string \<Rightarrow> ResourceList \<Rightarrow> int \<Rightarrow> Request list
      \<Rightarrow> ((ResourceList option \<times> error option) outcome \<times> Request list) option" where
  "ListAll_loop env c path list offset log =
     (case List env c path offset 100 log of
        (Panics, log') \<Rightarrow> Some (Panics, log')
      | (Returns (l, Some err), log') \<Rightarrow> Some (Returns (None, Some err), log')
      | (Returns (None, None), log') \<Rightarrow> Some (Panics, log')
      | (Returns (Some l, None), log') \<Rightarrow>
          (let list' = ResourceList (Items list @ Items l) (Limit list) (Offset list) in
           if length (Items l) = 0 \<or> length (Items l) < 100
           then Some (Returns (Some (ResourceList (Items list') (int (length (Items list')))
                                      (Offset list')), None), log')
           else ListAll_loop env c path list' (offset + 100) log'))"

declare ListAll_loop.simps [code]

definition ListAll ::
    "Env \<Rightarrow> Client \<Rightarrow> string \<Rightarrow> Request list
      \<Rightarrow> ((ResourceList option \<times> error option) outcome \<times> Request list) option" where
  "ListAll env c path log = ListAll_loop env c path (ResourceList [] 0 0) 0 log"

text \<open>
  \<open>Upload\<close>: asks for an upload link, then sends the bytes \<open>r\<close> of the reader to
  the address \<open>newRequest\<close> makes of the link (the client's base address followed by
  \<open>link.Href\<close>). The only result is the error. A nil link without an error would
  panic at \<open>link.Method\<close>.
\<close>

definition Upload ::
    "Env \<Rightarrow> Client \<Rightarrow> string \<Rightarrow> string \<Rightarrow> Request list
      \<Rightarrow> error option outcome \<times> Request list" where
  "Upload env c path r log =
     (let vals = Values_Set ''overwrite'' ''true'' (Values_Set ''path'' path [])
      in case requestLink env c ''GET'' ''resources/upload'' vals log of
           (Panics, log') \<Rightarrow> (Panics, log')
         | (Returns (link, Some err), log') \<Rightarrow> (Returns (Some err), log')
         | (Returns (None, None), log') \<Rightarrow> (Panics, log')
         | (Returns (Some link, None), log') \<Rightarrow>
             (case newRequest env c (Method link) (Href link) [] (Some r) of
                Panics \<Rightarrow> (Panics, log')
              | Returns (req, Some err) \<Rightarrow> (Returns (Some err), log')
              | Returns (req, None) \<Rightarrow>
                  (case Do env req log' of
                     (Inl err, log'') \<Rightarrow> (Returns (Some err), log'')
                   | (Inr resp, log'') \<Rightarrow>
                       if resp_StatusCode resp \<noteq> 201
                       then (Returns (Some (ErrorString
                               (''server responsed '' @ Itoa (resp_StatusCode resp)))), log'')
                       else (Returns None, log''))))"

text \<open>
  The operations that return a link all end the same way: an error of \<open>requestLink\<close>
  is returned with a nil link.
\<close>

definition UploadInternet ::
    "Env \<Rightarrow> Client \<Rightarrow> string \<Rightarrow> string \<Rightarrow> Request list
      \<Rightarrow> (Link option \<times> error option) outcome \<times> Request list" where
  "UploadInternet env c path uri log =
     (let vals = Values_Set ''url'' uri (Values_Set ''path'' path [])
      in case requestLink env c ''POST'' ''resources/upload'' vals log of
           (Panics, log') \<Rightarrow> (Panics, log')
         | (Returns (link, Some err), log') \<Rightarrow> (Returns (None, Some err), log')
         | (Returns (link, None), log') \<Rightarrow> (Returns (link, None), log'))"

definition Copy ::
    "Env \<Rightarrow> Client \<Rightarrow> string \<Rightarrow> string \<Rightarrow> Request list
      \<Rightarrow> (Link option \<times> error option) outcome \<times> Request list" where
  "Copy env c path from log =
     (let vals = Values_Set ''overwrite'' ''true''
                   (Values_Set ''from'' from (Values_Set ''path'' path []))
      in case requestLink env c ''POST'' ''resources/copy'' vals log of
           (Panics, log') \<Rightarrow> (Panics, log')
         | (Returns (link, Some err), log') \<Rightarrow> (Returns (None, Some err), log')
         | (Returns (link, None), log') \<Rightarrow> (Returns (link, None), log'))"

definition Move ::
    "Env \<Rightarrow> Client \<Rightarrow> string \<Rightarrow> string \<Rightarrow> Request list
      \<Rightarrow> (Link option \<times> error option) outcome \<times> Request list" where
  "Move env c path from log =
     (let vals = Values_Set ''overwrite'' ''true''
                   (Values_Set ''from'' from (Values_Set ''path'' path []))
      in case requestLink env c ''POST'' ''resources/move'' vals log of
           (Panics, log') \<Rightarrow> (Panics, log')
         | (Returns (link, Some err), log') \<Rightarrow> (Returns (None, Some err), log')
         | (Returns (link, None), log') \<Rightarrow> (Returns (link, None), log'))"

text \<open>\<open>Delete\<close>: \<open>fmt.Sprintf("%t", permanent)\<close> is the text of the flag.\<close>

definition Delete ::
    "Env \<Rightarrow> Client \<Rightarrow> string \<Rightarrow> bool \<Rightarrow> Request list
      \<Rightarrow> (Link option \<times> error option) outcome \<times> Request list" where
  "Delete env c path permanent log =
     (let vals = Values_Set ''permanently'' (if permanent then ''true'' else ''false'')
                   (Values_Set ''path'' path [])
      in requestOptionalOp env c ''DELETE'' ''resources'' vals log)"

definition MkDir ::
    "Env \<Rightarrow> Client \<Rightarrow> string \<Rightarrow> Request list
      \<Rightarrow> (Link option \<times> error option) outcome \<times> Request list" where
  "MkDir env c path log =
     (let vals = Values_Set ''path'' path []
      in case requestLink env c ''PUT'' ''resources'' vals log of
           (Panics, log') \<Rightarrow> (Panics, log')
         | (Returns (link, Some err), log') \<Rightarrow> (Returns (None, Some err), log')
         | (Returns (link, None), log') \<Rightarrow> (Returns (link, None), log'))"

definition TrashRestore ::
    "Env \<Rightarrow> Client \<Rightarrow> string \<Rightarrow> string \<Rightarrow> Request list
      \<Rightarrow> (Link option \<times> error option) outcome \<times> Request list" where
  "TrashRestore env c path newPath log =
     (let vals0 = Values_Set ''path'' path (Values_Set ''overwrite'' ''false'' []);
          vals = (if newPath \<noteq> [] then Values_Set ''name'' newPath vals0 else vals0)
      in case requestLink env c ''PUT'' ''trash/resources/restore'' vals log of
           (Panics, log') \<Rightarrow> (Panics, log')
         | (Returns (link, Some err), log') \<Rightarrow> (Returns (None, Some err), log')
         | (Returns (link, None), log') \<Rightarrow> (Returns (link, None), log'))"

text \<open>
  \<open>OpStatus\<close>: the status of the operation a link names. The link is a pointer, and
  \<open>IsOperation\<close> reads through it. An error comes with the status 0, which is
  \<open>StatusFailure\<close>. (The source also prints the operation id on standard output.)
\<close>

definition OpStatus ::
    "Env \<Rightarrow> Client \<Rightarrow> Link option \<Rightarrow> Request list
      \<Rightarrow> (Status \<times> error option) outcome \<times> Request list" where
  "OpStatus env c op log =
     (case op of
        None \<Rightarrow> (Panics, log)
      | Some l \<Rightarrow>
          if \<not> IsOperation l
          then (Returns (StatusFailure, Some (ErrorString ''not operation'')), log)
          else
            (let vals = Values_Set ''id'' (Operation (url_RequestURI env) l) []
             in case newRequest env c (Method l) ''operations'' vals None of
                  Panics \<Rightarrow> (Panics, log)
                | Returns (req, Some err) \<Rightarrow> (Returns (StatusFailure, Some err), log)
                | Returns (req, None) \<Rightarrow>
                    (case Do env req log of
                       (Inl err, log') \<Rightarrow> (Returns (StatusFailure, Some err), log')
                     | (Inr resp, log') \<Rightarrow>
                         (case readBody env resp of
                            (body, Some err) \<Rightarrow> (Returns (StatusFailure, Some err), log')
                          | (body, None) \<Rightarrow>
                              (case json_Status env body of
                                 (st, Some err) \<Rightarrow> (Returns (StatusFailure, Some err), log')
                               | (st, None) \<Rightarrow>
                                   if st = ''success'' then (Returns (StatusSuccess, None), log')
                                   else if st = ''failure'' then (Returns (StatusFailure, None), log')
                                   else if st = ''in-progress'' then (Returns (StatusInProgress, None), log')
                                   else (Returns (StatusFailure,
                                           Some (ErrorString (''invalid status '' @ st))), log'))))))"

section \<open>A scripted server for the examples\<close>

text \<open>
  The examples below run the client against a server that answers the n-th request
  with the n-th response of a script, and against decoders that know the bodies of
  the script: each gives what \<open>json.Unmarshal\<close> gives on that text, and a syntax error
  with the target untouched on any other text.
\<close>

definition body_file :: string where
  \<open>body_file = ''{"type":"file","name":"a.txt","path":"disk:/a.txt","size":3}''\<close>

definition body_dir_bare :: string where
  \<open>body_dir_bare = ''{"type":"dir","name":"photos","path":"disk:/photos"}''\<close>

text \<open>The two pages of a directory of 101 files; the text of the items is left out.\<close>

definition body_page0 :: string where
  \<open>body_page0 = ''{"type":"dir","name":"photos","_embedded":{"items":[...],"limit":100,"offset":0}}''\<close>

definition body_page1 :: string where
  \<open>body_page1 = ''{"type":"dir","name":"photos","_embedded":{"items":[...],"limit":100,"offset":100}}''\<close>

definition body_link_operation :: string where
  \<open>body_link_operation =
     ''{"href":"https://cloud-api.yandex.net/v1/disk/operations/123","method":"GET","templated":false}''\<close>

definition body_link_templated :: string where
  \<open>body_link_templated =
     ''{"href":"https://cloud-api.yandex.net/v1/disk/operations/{id}","method":"GET","templated":true}''\<close>

definition body_link_upload :: string where
  \<open>body_link_upload =
     ''{"href":"https://uploader.disk.yandex.net/upload-target/1","method":"PUT","templated":false}''\<close>

definition body_error :: string where
  \<open>body_error =
     ''{"message":"Not found","description":"Resource not found.","error":"DiskNotFoundError"}''\<close>

definition body_status_success :: string where
  \<open>body_status_success = ''{"status":"success"}''\<close>

definition body_status_queued :: string where
  \<open>body_status_queued = ''{"status":"queued"}''\<close>

definition body_html :: string where
  "body_html = ''<html>502 Bad Gateway</html>''"

definition syntax_error :: error where
  "syntax_error = ForeignError ''invalid character < looking for beginning of value''"

definition photo :: Resource where
  "photo = Resource ResourceTypeFile ''p.jpg'' [] [] ''disk:/photos/p.jpg'' [] 1 None"

text \<open>The links and the pages that the bodies of the script decode to.\<close>

definition operation123 :: Link where
  "operation123 = \<lparr>Href = ''https://cloud-api.yandex.net/v1/disk/operations/123'',
                     Method = ''GET'', Templated = False\<rparr>"

definition uploadLink :: Link where
  "uploadLink = \<lparr>Href = ''https://uploader.disk.yandex.net/upload-target/1'',
                   Method = ''PUT'', Templated = False\<rparr>"

definition page0 :: ResourceList where
  "page0 = ResourceList (replicate 100 (Some photo)) 100 0"

definition page1 :: ResourceList where
  "page1 = ResourceList [Some photo] 100 100"

definition demo_json_Resource :: "string \<Rightarrow> Resource \<times> error option" where
  "demo_json_Resource b =
     (if b = body_file
      then (Resource ResourceTypeFile ''a.txt'' [] [] ''disk:/a.txt'' [] 3 None, None)
      else if b = body_dir_bare
      then (Resource ResourceTypeDir ''photos'' [] [] ''disk:/photos'' [] 0 None, None)
      else if b = body_page0
      then (Resource ResourceTypeDir ''photos'' [] [] [] [] 0 (Some page0), None)
      else if b = body_page1
      then (Resource ResourceTypeDir ''photos'' [] [] [] [] 0 (Some page1), None)
      else (Resource ResourceTypeUnknown [] [] [] [] [] 0 None, Some syntax_error))"

definition demo_json_Link :: "string \<Rightarrow> Link option \<times> error option" where
  "demo_json_Link b =
     (if b = body_link_operation
      then (Some operation123, None)
      else if b = body_link_templated
      then (Some \<lparr>Href = ''https://cloud-api.yandex.net/v1/disk/operations/{id}'',
                   Method = ''GET'', Templated = True\<rparr>, None)
      else if b = body_link_upload
      then (Some uploadLink, None)
      else if b = ''null'' then (None, None)
      else (Some \<lparr>Href = [], Method = [], Templated = False\<rparr>, Some syntax_error))"

definition demo_json_Error :: "string \<Rightarrow> Error \<Rightarrow> Error \<times> error option" where
  "demo_json_Error b e =
     (if b = body_error
      then (e\<lparr>Message := ''Not found'', Description := ''Resource not found.'',
               Err := ''DiskNotFoundError''\<rparr>, None)
      else (e, Some syntax_error))"

definition demo_json_Status :: "string \<Rightarrow> string \<times> error option" where
  "demo_json_Status b =
     (if b = body_status_success then (''success'', None)
      else if b = body_status_queued then (''queued'', None)
      else ([], Some syntax_error))"

text \<open>
  The request URI of an address of the service (no fragment, nothing to escape) is
  what follows the host: the path and, after a question mark, the query.
\<close>

definition demo_RequestURI :: "string \<Rightarrow> string option" where
  "demo_RequestURI s =
     (if take 28 s = ''https://cloud-api.yandex.net'' then Some (drop 28 s) else None)"

definition scripted :: "Response list \<Rightarrow> Env" where
  "scripted script =
     \<lparr>http_NewRequest = (\<lambda>method url. None),
      HTTP_Do = (\<lambda>log req. if length log < length script then Inr (script ! length log)
                              else Inl (ForeignError ''EOF'')),
      json_Resource = demo_json_Resource,
      json_Link = demo_json_Link,
      json_Error = demo_json_Error,
      json_Status = demo_json_Status,
      url_RequestURI = demo_RequestURI\<rparr>"

definition ok :: "string \<Rightarrow> Response" where
  "ok body = \<lparr>resp_StatusCode = 200, resp_Body = body, resp_BodyErr = None\<rparr>"

definition demoClient :: Client where
  "demoClient = NewClient ''secret''"

text \<open>The request the example client builds for a method, an address and query values.\<close>

definition demoRequest :: "string \<Rightarrow> string \<Rightarrow> Values \<Rightarrow> string option \<Rightarrow> Request" where
  "demoRequest method url vals body =
     \<lparr>req_Method = method, req_URL = ''https://cloud-api.yandex.net/v1/disk/'' @ url,
      req_Header = [(''User-Agent'', ''Yad/0.1.0''), (''Authorization'', ''OAuth secret''),
                    (''Accept'', ''application/json''), (''Content-Type'', ''application/json'')],
      req_RawQuery = vals, req_Body = body\<rparr>"

text \<open>The request of the example client for the page of \<open>/photos\<close> at an offset.\<close>

definition listRequest :: "string \<Rightarrow> Request" where
  "listRequest offset =
     demoRequest ''GET'' ''resources''
       [(''path'', ''/photos''), (''offset'', offset), (''limit'', ''100''), (''sort'', ''name'')]
       None"

section \<open>Substrings and pieces\<close>

text \<open>
  \<open>Contains\<close> holds exactly of the strings that have the substring somewhere;
  the last piece of a split is what follows the last separator.
\<close>

lemma Contains_append: "Contains (pre @ substr @ post) substr"
  by (induction pre) (auto simp: neq_Nil_conv, (cases substr; cases post; simp)+)

lemma Split_nonempty: "Split s sep \<noteq> []"
  by (induction s) (auto split: list.splits)

lemma Split_no_sep: "sep \<notin> set seg \<Longrightarrow> Split seg sep = [seg]"
  by (induction seg) auto

lemma Split_tl_nonempty: "sep \<in> set s \<Longrightarrow> tl (Split s sep) \<noteq> []"
  by (induction s) (auto simp: Split_nonempty split: list.splits)

lemma Split_last_append:
  "sep \<notin> set seg \<Longrightarrow> last (Split (p @ sep # seg) sep) = seg"
proof (induction p)
  case Nil
  then show ?case by (simp add: Split_no_sep)
next
  case (Cons x p)
  have "tl (Split (p @ sep # seg) sep) \<noteq> []"
    by (rule Split_tl_nonempty) simp
  with Cons show ?case
    by (auto simp: Split_nonempty split: list.splits)
qed

lemma Operation_last:
  "IsOperation l \<Longrightarrow> RequestURI (Href l) = Some uri
     \<Longrightarrow> Operation RequestURI l = last (Split uri CHR ''/'')"
  by (simp add: Operation_def Let_def Split_nonempty last_conv_nth)

lemma no_straddle:
  assumes "0 < n" and "n < 16"
  shows "take (16 - n) ''/disk/resources/foo'' \<noteq> drop n ''/disk/operations''"
proof -
  have each: "\<forall>k \<in> set [1..<16].
      take (16 - k) ''/disk/resources/foo'' \<noteq> drop k ''/disk/operations''"
    by code_simp
  have "n \<in> set [1..<16]" using assms by simp
  from bspec [OF each this] show ?thesis .
qed

lemma take_marker_resources:
  "take (length ''/disk/operations'') (x # pre @ ''/disk/resources/foo'') = ''/disk/operations''
     \<longleftrightarrow> take (length ''/disk/operations'') (x # pre) = ''/disk/operations''"
proof -
  define m where "m = ''/disk/operations''"
  define s where "s = ''/disk/resources/foo''"
  define ys where "ys = x # pre"
  define n where "n = length ys"
  have len: "length m = 16" by (simp add: m_def)
  have "take (length m) (ys @ s) = m \<longleftrightarrow> take (length m) ys = m"
  proof (cases "length m \<le> n")
    case True
    then show ?thesis by (simp add: n_def)
  next
    case False
    with len have n: "0 < n" "n < 16" by (simp_all add: n_def ys_def)
    have rhs: "take (length m) ys \<noteq> m"
    proof
      assume "take (length m) ys = m"
      then have "length (take (length m) ys) = length m" by simp
      with n len show False by (simp add: n_def)
    qed
    have lhs: "take (length m) (ys @ s) \<noteq> m"
    proof
      assume a: "take (length m) (ys @ s) = m"
      have "take (length m) (ys @ s) = ys @ take (16 - n) s"
        using n len by (simp add: n_def)
      with a have "drop n (ys @ take (16 - n) s) = drop n m"
        by simp
      then have "take (16 - n) s = drop n m"
        by (simp add: n_def)
      with no_straddle [OF n] show False by (simp only: m_def s_def)
    qed
    from lhs rhs show ?thesis by simp
  qed
  then show ?thesis by (simp only: m_def s_def ys_def append_Cons)
qed

lemma Contains_resources_foo:
  "Contains (pre @ ''/disk/resources/foo'') ''/disk/operations''
     \<longleftrightarrow> Contains pre ''/disk/operations''"
proof (induction pre)
  case Nil
  show ?case by simp
next
  case (Cons x pre)
  show ?case
    by (simp only: append_Cons Contains.simps Cons.IH take_marker_resources)
qed

lemma Contains_iff: "Contains s substr \<longleftrightarrow> (\<exists>pre post. s = pre @ substr @ post)"
proof
  show "Contains s substr \<Longrightarrow> \<exists>pre post. s = pre @ substr @ post"
  proof (induction s)
    case Nil
    then show ?case by simp
  next
    case (Cons x xs)
    show ?case
    proof (cases "take (length substr) (x # xs) = substr")
      case True
      then have "x # xs = [] @ substr @ drop (length substr) (x # xs)"
        by (metis append_Nil append_take_drop_id)
      then show ?thesis by blast
    next
      case False
      with Cons.prems have "Contains xs substr" by simp
      then obtain pre post where "xs = pre @ substr @ post"
        using Cons.IH by blast
      then have "x # xs = (x # pre) @ substr @ post" by simp
      then show ?thesis by blast
    qed
  qed
next
  show "\<exists>pre post. s = pre @ substr @ post \<Longrightarrow> Contains s substr"
    using Contains_append by blast
qed

section \<open>Decoding of resource types\<close>

text \<open>
  Claim C8. Fed the quoted string \<open>"dir"\<close>, \<open>UnmarshalJSON\<close> sets the directory kind;
  fed \<open>"file"\<close>, the file kind; fed any other quoted string, the unknown kind, each
  without an error. A value shorter than two characters, or one that does not start
  and end with a double quote, gives an error and leaves the receiver as it was.
\<close>

theorem UnmarshalJSON_decodes:
  "UnmarshalJSON rt (dquote # ''dir'' @ [dquote]) = (ResourceTypeDir, None)
   \<and> UnmarshalJSON rt (dquote # ''file'' @ [dquote]) = (ResourceTypeFile, None)
   \<and> (\<forall>v. v \<noteq> ''dir'' \<and> v \<noteq> ''file''
          \<longrightarrow> UnmarshalJSON rt (dquote # v @ [dquote]) = (ResourceTypeUnknown, None))
   \<and> (\<forall>s. length s < 2 \<or> hd s \<noteq> dquote \<or> last s \<noteq> dquote
          \<longrightarrow> UnmarshalJSON rt s = (rt, Some (ErrorString (''invalid type JSON value '' @ s))))"
proof -
  have quoted: "UnmarshalJSON rt (dquote # v @ [dquote]) =
      (if v = ''dir'' then (ResourceTypeDir, None)
       else if v = ''file'' then (ResourceTypeFile, None)
       else (ResourceTypeUnknown, None))" for v
    by (simp add: UnmarshalJSON_def nth_append)
  have bad: "UnmarshalJSON rt s = (rt, Some (ErrorString (''invalid type JSON value '' @ s)))"
    if "length s < 2 \<or> hd s \<noteq> dquote \<or> last s \<noteq> dquote" for s
  proof (cases "length s < 2")
    case True
    then show ?thesis by (simp add: UnmarshalJSON_def)
  next
    case False
    then have "s \<noteq> []" by auto
    then have "s ! 0 = hd s" "s ! (length s - 1) = last s"
      by (simp_all add: hd_conv_nth last_conv_nth)
    with that False show ?thesis by (simp add: UnmarshalJSON_def)
  qed
  have qdir: "UnmarshalJSON rt (dquote # ''dir'' @ [dquote]) = (ResourceTypeDir, None)"
    using quoted [of "''dir''"] by simp
  have qfile: "UnmarshalJSON rt (dquote # ''file'' @ [dquote]) = (ResourceTypeFile, None)"
    using quoted [of "''file''"] by simp
  show ?thesis using qdir qfile by (intro conjI allI impI) (simp_all only: quoted bad if_False)
qed

text \<open>The quoted string \<open>"link"\<close> and the bare word \<open>dir\<close>, on a receiver that held the file kind.\<close>

theorem UnmarshalJSON_decodes_witness:
  "UnmarshalJSON ResourceTypeFile (dquote # ''link'' @ [dquote]) = (ResourceTypeUnknown, None)
   \<and> UnmarshalJSON ResourceTypeFile ''dir''
       = (ResourceTypeFile, Some (ErrorString ''invalid type JSON value dir''))"
proof -
  note t = UnmarshalJSON_decodes [of ResourceTypeFile]
  have other: "UnmarshalJSON ResourceTypeFile (dquote # ''link'' @ [dquote]) = (ResourceTypeUnknown, None)"
    using t [THEN conjunct2, THEN conjunct2, THEN conjunct1, THEN spec, of "''link''"] by simp
  have bare: "UnmarshalJSON ResourceTypeFile ''dir''
       = (ResourceTypeFile, Some (ErrorString ''invalid type JSON value dir''))"
    using t [THEN conjunct2, THEN conjunct2, THEN conjunct2, THEN spec, of "''dir''"]
    by (simp add: dquote_def)
  show ?thesis using other bare by simp
qed

section \<open>Operation links\<close>

text \<open>
  \<open>IsOperation\<close> holds exactly when \<open>/disk/operations\<close> occurs in \<open>Href\<close>. Where the
  request URI is the bare path: for a link whose \<open>Href\<close> ends in \<open>/disk/operations/\<close>
  and an identifier without a slash, \<open>IsOperation\<close> is true and \<open>Operation\<close> is that
  identifier; for a link whose \<open>Href\<close> ends in \<open>/disk/resources/foo\<close>, with no
  \<open>/disk/operations\<close> before that, \<open>IsOperation\<close> is false and \<open>Operation\<close> is empty.
\<close>

lemma Link_plain_address:
  "(IsOperation l \<longleftrightarrow> (\<exists>a b. Href l = a @ ''/disk/operations'' @ b))
   \<and> (Href l = pre @ ''/disk/operations/'' @ seg \<and> CHR ''/'' \<notin> set seg
        \<and> RequestURI (Href l) = Some (p @ ''/disk/operations/'' @ seg)
      \<longrightarrow> IsOperation l \<and> Operation RequestURI l = seg)
   \<and> (Href l = pre @ ''/disk/resources/foo'' \<and> \<not> Contains pre ''/disk/operations''
      \<longrightarrow> \<not> IsOperation l \<and> Operation RequestURI l = [])"
proof (intro conjI impI)
  show "IsOperation l \<longleftrightarrow> (\<exists>a b. Href l = a @ ''/disk/operations'' @ b)"
    by (simp only: IsOperation_def Contains_iff)
next
  assume a: "Href l = pre @ ''/disk/operations/'' @ seg \<and> CHR ''/'' \<notin> set seg
        \<and> RequestURI (Href l) = Some (p @ ''/disk/operations/'' @ seg)"
  then have "Href l = pre @ ''/disk/operations'' @ (CHR ''/'' # seg)" by simp
  then show op: "IsOperation l"
    unfolding IsOperation_def by (simp only: Contains_append)
  from a have "RequestURI (Href l) = Some (p @ ''/disk/operations/'' @ seg)"
    by (rule conjunct2 [THEN conjunct2])
  then have uri: "RequestURI (Href l) = Some ((p @ ''/disk/operations'') @ CHR ''/'' # seg)"
    by simp
  from a have "last (Split ((p @ ''/disk/operations'') @ CHR ''/'' # seg) CHR ''/'') = seg"
    by (intro Split_last_append) simp
  with Operation_last [of l RequestURI, OF op uri] show "Operation RequestURI l = seg" by simp
next
  assume a: "Href l = pre @ ''/disk/resources/foo'' \<and> \<not> Contains pre ''/disk/operations''"
  then show no: "\<not> IsOperation l"
    by (simp only: IsOperation_def Contains_resources_foo not_False_eq_True)
  then show "Operation RequestURI l = []"
    by (simp add: Operation_def)
qed

text \<open>
  Claim C3. A link whose URL path is \<open>.../disk/operations/123\<close> is to report the
  identifier \<open>123\<close>, the last segment of the path; the comment on \<open>Operation\<close> says it
  returns the operation ID. The code splits the request URI instead of the path, and the
  request URI carries the query: for a link that names an operation and whose request
  URI is a path ending in the segment \<open>seg\<close>, then a question mark and a query \<open>q\<close>
  without a slash, \<open>Operation\<close> returns \<open>seg?q\<close>, which is not \<open>seg\<close>.
\<close>

theorem Operation_takes_query_along:
  "IsOperation l \<and> RequestURI (Href l) = Some (p @ ''/'' @ seg @ ''?'' @ q)
     \<and> CHR ''/'' \<notin> set seg \<and> CHR ''/'' \<notin> set q
   \<longrightarrow> Operation RequestURI l = seg @ ''?'' @ q \<and> Operation RequestURI l \<noteq> seg"
proof
  assume a: "IsOperation l \<and> RequestURI (Href l) = Some (p @ ''/'' @ seg @ ''?'' @ q)
     \<and> CHR ''/'' \<notin> set seg \<and> CHR ''/'' \<notin> set q"
  then have op: "IsOperation l" by simp
  from a have uri: "RequestURI (Href l) = Some (p @ CHR ''/'' # (seg @ ''?'' @ q))" by simp
  from a have "CHR ''/'' \<notin> set (seg @ ''?'' @ q)" by simp
  then have "last (Split (p @ CHR ''/'' # (seg @ ''?'' @ q)) CHR ''/'') = seg @ ''?'' @ q"
    by (rule Split_last_append)
  with Operation_last [of l RequestURI, OF op uri]
  have "Operation RequestURI l = seg @ ''?'' @ q" by simp
  then show "Operation RequestURI l = seg @ ''?'' @ q \<and> Operation RequestURI l \<noteq> seg"
    by simp
qed

text \<open>The operation 123, addressed with the query \<open>fields=status\<close>.\<close>

theorem Operation_takes_query_along_witness:
  "IsOperation \<lparr>Href = ''https://cloud-api.yandex.net/v1/disk/operations/123?fields=status'',
                 Method = ''GET'', Templated = False\<rparr>
   \<and> Operation demo_RequestURI
         \<lparr>Href = ''https://cloud-api.yandex.net/v1/disk/operations/123?fields=status'',
           Method = ''GET'', Templated = False\<rparr> = ''123?fields=status''"
proof -
  have op: "IsOperation \<lparr>Href = ''https://cloud-api.yandex.net/v1/disk/operations/123?fields=status'',
                 Method = ''GET'', Templated = False\<rparr>"
    by (simp add: IsOperation_def)
  have uri: "demo_RequestURI ''https://cloud-api.yandex.net/v1/disk/operations/123?fields=status''
      = Some (''/v1/disk/operations'' @ ''/'' @ ''123'' @ ''?'' @ ''fields=status'')"
    by (simp add: demo_RequestURI_def)
  from op uri
    Operation_takes_query_along
      [of "\<lparr>Href = ''https://cloud-api.yandex.net/v1/disk/operations/123?fields=status'',
             Method = ''GET'', Templated = False\<rparr>"
          demo_RequestURI "''/v1/disk/operations''" "''123''" "''fields=status''"]
  show ?thesis by simp
qed

section \<open>The transport, step by step\<close>

text \<open>
  What each layer returns once the request was built and answered, and the requests
  and bodies of the scripted server.
\<close>

lemma newRequest_cases:
  "newRequest env c method url vals body = Panics
   \<or> (\<exists>req. newRequest env c method url vals body = Returns (req, None))"
  by (simp add: newRequest_def split: option.splits)

lemma readErrBody_cases:
  "readErrBody env r =
     (case resp_BodyErr r of
        Some err \<Rightarrow> err
      | None \<Rightarrow>
          (case json_Error env (resp_Body r)
                  \<lparr>StatusCode = resp_StatusCode r, Message = [], Description = [], Err = []\<rparr> of
             (e, Some err) \<Rightarrow> err
           | (e, None) \<Rightarrow> APIError e))"
  by (simp add: readErrBody_def ReadAll_def split: option.splits prod.splits)

lemma requestOptionalOp_answered:
  assumes "newRequest env c method url vals None = Returns (req, None)"
    and "HTTP_Do env log req = Inr resp"
  shows "requestOptionalOp env c method url vals log =
     (if resp_StatusCode resp = 204 then (Returns (None, None), log @ [req])
      else if resp_StatusCode resp = 202 then
        (case readBody env resp of
           (body, Some err) \<Rightarrow> (Returns (None, Some err), log @ [req])
         | (body, None) \<Rightarrow>
             (case json_Link env body of
                (link, Some err) \<Rightarrow> (Returns (None, Some err), log @ [req])
              | (None, None) \<Rightarrow> (Panics, log @ [req])
              | (Some link, None) \<Rightarrow>
                  if Templated link
                  then (Returns (None, Some (ErrorString ''unsupported templated link'')), log @ [req])
                  else (Returns (Some link, None), log @ [req])))
      else (Returns (None, Some (readErrBody env resp)), log @ [req]))"
  using assms by (simp add: requestOptionalOp_def Do_def)

lemma do_answered:
  assumes "newRequest env c method url vals None = Returns (req, None)"
    and "HTTP_Do env log req = Inr resp"
  shows "do env c method url vals log =
     (case readBody env resp of
        (body, Some err) \<Rightarrow> (Returns ([], Some err), log @ [req])
      | (body, None) \<Rightarrow> (Returns (body, None), log @ [req]))"
  using assms by (simp add: do_def Do_def)

lemma demo_newRequest:
  "newRequest (scripted script) demoClient method url vals body
     = Returns (demoRequest method url vals body, None)"
  by (simp add: newRequest_def scripted_def demoClient_def NewClient_def defaultURL_def
      defaultUserAgent_def demoRequest_def)

lemma scripted_first: "HTTP_Do (scripted (resp # script)) [] req = Inr resp"
  by (simp add: scripted_def)

lemma scripted_second: "HTTP_Do (scripted (r0 # resp # script)) [q] req = Inr resp"
  by (simp add: scripted_def)

lemma demo_do_first:
  "do (scripted (resp # script)) demoClient method url vals [] =
     (case readBody (scripted (resp # script)) resp of
        (body, Some err) \<Rightarrow> (Returns ([], Some err), [demoRequest method url vals None])
      | (body, None) \<Rightarrow> (Returns (body, None), [demoRequest method url vals None]))"
  by (simp add: do_answered [OF demo_newRequest scripted_first]
      split: prod.splits option.splits)

lemma readBody_ok: "readBody env (ok body) = (body, None)"
  by (simp add: readBody_def ReadAll_def ok_def)

lemma requestLink_both:
  assumes "do env c method url vals log = (Returns (body, None), log')"
    and "json_Link env body = (Some link, Some err)"
    and "\<not> Templated link"
  shows "requestLink env c method url vals log = (Returns (Some link, Some err), log')"
  using assms by (simp add: requestLink_def)

lemma Copy_never_both: "fst (Copy env c path from log) \<noteq> Returns (Some link, Some err)"
  by (simp add: Copy_def split: prod.splits outcome.splits option.splits)

lemma Move_never_both: "fst (Move env c path from log) \<noteq> Returns (Some link, Some err)"
  by (simp add: Move_def split: prod.splits outcome.splits option.splits)

lemma MkDir_never_both: "fst (MkDir env c path log) \<noteq> Returns (Some link, Some err)"
  by (simp add: MkDir_def split: prod.splits outcome.splits option.splits)

lemma UploadInternet_never_both:
  "fst (UploadInternet env c path uri log) \<noteq> Returns (Some link, Some err)"
  by (simp add: UploadInternet_def split: prod.splits outcome.splits option.splits)

lemma TrashRestore_never_both:
  "fst (TrashRestore env c path newPath log) \<noteq> Returns (Some link, Some err)"
  by (simp add: TrashRestore_def Let_def split: prod.splits outcome.splits option.splits)

lemma Itoa_0: "Itoa 0 = ''0''"
  by code_simp

lemma Itoa_100: "Itoa 100 = ''100''"
  by code_simp

lemma Itoa_20: "Itoa 20 = ''20''"
  by code_simp

lemma Itoa_500: "Itoa 500 = ''500''"
  by code_simp

lemma demo_do_second:
  "do (scripted (r0 # resp # script)) demoClient method url vals [q] =
     (case readBody (scripted (r0 # resp # script)) resp of
        (body, Some err) \<Rightarrow> (Returns ([], Some err), [q, demoRequest method url vals None])
      | (body, None) \<Rightarrow> (Returns (body, None), [q, demoRequest method url vals None]))"
  by (simp add: do_answered [OF demo_newRequest scripted_second]
      split: prod.splits option.splits)

lemma List_decoded:
  assumes "do env c ''GET'' ''resources''
             (Values_Set ''sort'' ''name''
               (Values_Set ''limit'' (Itoa limit)
                 (Values_Set ''offset'' (Itoa offset)
                   (Values_Set ''path'' path [])))) log = (Returns (body, None), log')"
    and "json_Resource env body = (res, None)"
  shows "List env c path offset limit log =
     (if Type res \<noteq> ResourceTypeDir
      then (Returns (None, Some (ErrorString ''not a directory'')), log')
      else (Returns (SubList res, None), log'))"
  using assms by (simp add: List_def)

lemma do_log:
  "do env c method url vals log = (Returns x, log') \<Longrightarrow> \<exists>req. log' = log @ [req]"
  by (auto simp: do_def newRequest_def Do_def
      split: option.splits sum.splits prod.splits)

lemma List_log:
  "List env c path offset limit log = (Returns x, log') \<Longrightarrow> length log' = Suc (length log)"
  by (auto simp: List_def Let_def dest!: do_log
      split: prod.splits outcome.splits option.splits if_splits)

lemma operation123_id:
  "IsOperation operation123 \<and> Operation demo_RequestURI operation123 = ''123''"
  by (simp add: operation123_def IsOperation_def Operation_def demo_RequestURI_def)

lemma demo_upload_link:
  "requestLink (scripted (ok body_link_upload # script)) demoClient ''GET'' ''resources/upload''
       (Values_Set ''overwrite'' ''true'' (Values_Set ''path'' ''/a.txt'' [])) []
     = (Returns (Some uploadLink, None),
        [demoRequest ''GET'' ''resources/upload''
           [(''path'', ''/a.txt''), (''overwrite'', ''true'')] None])"
proof -
  have "json_Link (scripted (ok body_link_upload # script)) body_link_upload
      = (Some uploadLink, None)"
    by (simp add: scripted_def demo_json_Link_def uploadLink_def body_link_upload_def
        body_link_operation_def body_link_templated_def)
  then show ?thesis
    by (simp add: requestLink_def demo_do_first readBody_ok uploadLink_def)
qed

lemma demo_first_page:
  "List (scripted [ok body_page0, ok body_page1]) demoClient ''/photos'' 0 100 []
     = (Returns (Some page0, None), [listRequest ''0''])"
proof -
  have sent: "do (scripted [ok body_page0, ok body_page1]) demoClient ''GET'' ''resources''
             (Values_Set ''sort'' ''name''
               (Values_Set ''limit'' (Itoa 100)
                 (Values_Set ''offset'' (Itoa 0)
                   (Values_Set ''path'' ''/photos'' [])))) []
     = (Returns (body_page0, None), [listRequest ''0''])"
    by (simp add: demo_do_first readBody_ok Itoa_0 Itoa_100 listRequest_def)
  have decoded: "json_Resource (scripted [ok body_page0, ok body_page1]) body_page0
      = (Resource ResourceTypeDir ''photos'' [] [] [] [] 0 (Some page0), None)"
    by (simp add: scripted_def demo_json_Resource_def page0_def body_page0_def
        body_file_def body_dir_bare_def)
  show ?thesis
    by (simp add: List_decoded [OF sent decoded])
qed

lemma demo_second_page:
  "List (scripted [ok body_page0, ok body_page1]) demoClient ''/photos'' 100 100
       [listRequest ''0'']
     = (Returns (Some page1, None), [listRequest ''0'', listRequest ''100''])"
proof -
  have sent: "do (scripted [ok body_page0, ok body_page1]) demoClient ''GET'' ''resources''
             (Values_Set ''sort'' ''name''
               (Values_Set ''limit'' (Itoa 100)
                 (Values_Set ''offset'' (Itoa 100)
                   (Values_Set ''path'' ''/photos'' [])))) [listRequest ''0'']
     = (Returns (body_page1, None), [listRequest ''0'', listRequest ''100''])"
    by (simp add: demo_do_second readBody_ok Itoa_100 listRequest_def)
  have decoded: "json_Resource (scripted [ok body_page0, ok body_page1]) body_page1
      = (Resource ResourceTypeDir ''photos'' [] [] [] [] 0 (Some page1), None)"
    by (simp add: scripted_def demo_json_Resource_def page1_def body_page0_def body_page1_def
        body_file_def body_dir_bare_def)
  show ?thesis
    by (simp add: List_decoded [OF sent decoded])
qed

lemma demo_requestLink_html:
  "requestLink (scripted [ok body_html]) demoClient method url vals []
     = (Returns (Some \<lparr>Href = [], Method = [], Templated = False\<rparr>, Some syntax_error),
        [demoRequest method url vals None])"
proof -
  have sent: "do (scripted [ok body_html]) demoClient method url vals []
      = (Returns (body_html, None), [demoRequest method url vals None])"
    by (simp add: demo_do_first readBody_ok)
  have decoded: "json_Link (scripted [ok body_html]) body_html
      = (Some \<lparr>Href = [], Method = [], Templated = False\<rparr>, Some syntax_error)"
    by (simp add: scripted_def demo_json_Link_def body_html_def body_link_operation_def
        body_link_templated_def body_link_upload_def)
  show ?thesis
    by (rule requestLink_both [OF sent decoded]) simp
qed

section \<open>Reading a response\<close>

text \<open>
  Claim C5, as the code has it. For a status from 200 to 299, \<open>readBody\<close> returns
  what reading the body gives: the bytes, unchanged, and the read error if there is
  one. For any other status it returns no bytes and the error of \<open>readErrBody\<close>: the
  read error when the body cannot be read; the decoding error when the body does not
  decode; and otherwise the \<open>Error\<close> object decoded from the body into a value that
  was preset with the status code of the response.
\<close>

theorem readBody_by_status:
  "(200 \<le> resp_StatusCode r \<and> resp_StatusCode r < 300
      \<longrightarrow> readBody env r = (resp_Body r, resp_BodyErr r))
   \<and> (resp_StatusCode r < 200 \<or> 300 \<le> resp_StatusCode r
      \<longrightarrow> readBody env r = ([], Some (readErrBody env r))
        \<and> (\<forall>e. resp_BodyErr r = Some e \<longrightarrow> readErrBody env r = e)
        \<and> (\<forall>d e. resp_BodyErr r = None
               \<and> json_Error env (resp_Body r)
                     \<lparr>StatusCode = resp_StatusCode r, Message = [], Description = [], Err = []\<rparr>
                   = (d, Some e)
              \<longrightarrow> readErrBody env r = e)
        \<and> (\<forall>d. resp_BodyErr r = None
               \<and> json_Error env (resp_Body r)
                     \<lparr>StatusCode = resp_StatusCode r, Message = [], Description = [], Err = []\<rparr>
                   = (d, None)
              \<longrightarrow> readErrBody env r = APIError d))"
proof (intro conjI impI allI)
  assume "200 \<le> resp_StatusCode r \<and> resp_StatusCode r < 300"
  then show "readBody env r = (resp_Body r, resp_BodyErr r)"
    by (simp add: readBody_def ReadAll_def)
next
  assume "resp_StatusCode r < 200 \<or> 300 \<le> resp_StatusCode r"
  then show "readBody env r = ([], Some (readErrBody env r))"
    by (auto simp: readBody_def)
qed (simp_all add: readErrBody_cases)

text \<open>An empty JSON object with status 200, and the service's error object with status 404.\<close>

theorem readBody_by_status_witness:
  "readBody (scripted []) (ok ''{}'') = (''{}'', None)
   \<and> readBody (scripted []) \<lparr>resp_StatusCode = 404, resp_Body = body_error, resp_BodyErr = None\<rparr>
       = ([], Some (APIError \<lparr>StatusCode = 404, Message = ''Not found'',
                              Description = ''Resource not found.'', Err = ''DiskNotFoundError''\<rparr>))"
proof -
  have a: "readBody (scripted []) (ok ''{}'') = (''{}'', None)"
    using readBody_by_status [of "ok ''{}''" "scripted []", THEN conjunct1]
    by (simp add: ok_def)
  note b = readBody_by_status [of "\<lparr>resp_StatusCode = 404, resp_Body = body_error, resp_BodyErr = None\<rparr>"
      "scripted []", THEN conjunct2]
  have c: "readBody (scripted []) \<lparr>resp_StatusCode = 404, resp_Body = body_error, resp_BodyErr = None\<rparr>
       = ([], Some (APIError \<lparr>StatusCode = 404, Message = ''Not found'',
                              Description = ''Resource not found.'', Err = ''DiskNotFoundError''\<rparr>))"
    using b by (simp add: scripted_def demo_json_Error_def)
  from a c show ?thesis by simp
qed

text \<open>
  The claim as stated fails: a gateway answers 502 with an HTML page, the body does not
  decode, and the call fails with the decoder's error; no \<open>Error\<close> object is made
  and the status code is lost.
\<close>

theorem html_error_body_counterexample:
  "readBody (scripted []) \<lparr>resp_StatusCode = 502, resp_Body = body_html, resp_BodyErr = None\<rparr>
     = ([], Some (ForeignError ''invalid character < looking for beginning of value''))"
  by (simp add: readBody_def readErrBody_def ReadAll_def scripted_def demo_json_Error_def
      body_html_def body_error_def syntax_error_def)

section \<open>Delete\<close>

text \<open>
  Claim C2, as the code has it. Once the request of \<open>Delete\<close> was built and
  answered: status 204 gives no link and no error; status 202 with a body that is read
  and decodes to a link that is not templated gives that link and no error, while a
  templated link gives no link and the error \<open>unsupported templated link\<close>; any other
  status gives no link and the error of \<open>readErrBody\<close> on the response. In each case
  exactly the one request was sent.
\<close>

theorem Delete_by_status:
  assumes sent: "newRequest env c ''DELETE'' ''resources''
        (Values_Set ''permanently'' (if permanent then ''true'' else ''false'')
          (Values_Set ''path'' path [])) None = Returns (req, None)"
    and answered: "HTTP_Do env log req = Inr resp"
  shows "(resp_StatusCode resp = 204
            \<longrightarrow> Delete env c path permanent log = (Returns (None, None), log @ [req]))
    \<and> (resp_StatusCode resp = 202 \<and> resp_BodyErr resp = None
          \<and> json_Link env (resp_Body resp) = (Some link, None) \<and> \<not> Templated link
            \<longrightarrow> Delete env c path permanent log = (Returns (Some link, None), log @ [req]))
    \<and> (resp_StatusCode resp = 202 \<and> resp_BodyErr resp = None
          \<and> json_Link env (resp_Body resp) = (Some link, None) \<and> Templated link
            \<longrightarrow> Delete env c path permanent log
                = (Returns (None, Some (ErrorString ''unsupported templated link'')), log @ [req]))
    \<and> (resp_StatusCode resp \<noteq> 204 \<and> resp_StatusCode resp \<noteq> 202
            \<longrightarrow> Delete env c path permanent log
                = (Returns (None, Some (readErrBody env resp)), log @ [req]))"
proof -
  note r = requestOptionalOp_answered [OF sent answered]
  show ?thesis
    unfolding Delete_def Let_def r
    by (simp add: readBody_def ReadAll_def)
qed

text \<open>An empty directory (204), a directory deleted in the background (202), a missing path (404).\<close>

theorem Delete_by_status_witness:
  "Delete (scripted [\<lparr>resp_StatusCode = 204, resp_Body = [], resp_BodyErr = None\<rparr>])
       demoClient ''/empty'' False []
     = (Returns (None, None), [demoRequest ''DELETE'' ''resources'' [(''path'', ''/empty''), (''permanently'', ''false'')] None])
   \<and> Delete (scripted [\<lparr>resp_StatusCode = 202, resp_Body = body_link_operation, resp_BodyErr = None\<rparr>])
       demoClient ''/photos'' False []
     = (Returns (Some \<lparr>Href = ''https://cloud-api.yandex.net/v1/disk/operations/123'',
                         Method = ''GET'', Templated = False\<rparr>, None), [demoRequest ''DELETE'' ''resources'' [(''path'', ''/photos''), (''permanently'', ''false'')] None])
   \<and> Delete (scripted [\<lparr>resp_StatusCode = 404, resp_Body = body_error, resp_BodyErr = None\<rparr>])
       demoClient ''/gone'' False []
     = (Returns (None, Some (APIError \<lparr>StatusCode = 404, Message = ''Not found'',
                   Description = ''Resource not found.'', Err = ''DiskNotFoundError''\<rparr>)),
        [demoRequest ''DELETE'' ''resources'' [(''path'', ''/gone''), (''permanently'', ''false'')] None])"
proof -
  have sent: "newRequest (scripted script) demoClient ''DELETE'' ''resources''
        (Values_Set ''permanently'' (if False then ''true'' else ''false'')
          (Values_Set ''path'' path [])) None = Returns (demoRequest ''DELETE'' ''resources'' [(''path'', path), (''permanently'', ''false'')] None, None)" for script path
    by (simp add: demo_newRequest)
  have answered: "HTTP_Do (scripted [resp]) [] req = Inr resp" for resp req
    by (simp add: scripted_def)
  note t = Delete_by_status [OF sent answered]
  have a: "Delete (scripted [\<lparr>resp_StatusCode = 204, resp_Body = [], resp_BodyErr = None\<rparr>])
       demoClient ''/empty'' False []
     = (Returns (None, None), [demoRequest ''DELETE'' ''resources'' [(''path'', ''/empty''), (''permanently'', ''false'')] None])"
    using t [of "\<lparr>resp_StatusCode = 204, resp_Body = [], resp_BodyErr = None\<rparr>" "''/empty''",
        THEN conjunct1] by simp
  have b: "Delete (scripted [\<lparr>resp_StatusCode = 202, resp_Body = body_link_operation, resp_BodyErr = None\<rparr>])
       demoClient ''/photos'' False []
     = (Returns (Some \<lparr>Href = ''https://cloud-api.yandex.net/v1/disk/operations/123'',
                         Method = ''GET'', Templated = False\<rparr>, None), [demoRequest ''DELETE'' ''resources'' [(''path'', ''/photos''), (''permanently'', ''false'')] None])"
    using t [of "\<lparr>resp_StatusCode = 202, resp_Body = body_link_operation, resp_BodyErr = None\<rparr>"
        "''/photos''"
        "\<lparr>Href = ''https://cloud-api.yandex.net/v1/disk/operations/123'',
                         Method = ''GET'', Templated = False\<rparr>",
        THEN conjunct2, THEN conjunct1]
    by (simp add: scripted_def demo_json_Link_def operation123_def)
  have c: "Delete (scripted [\<lparr>resp_StatusCode = 404, resp_Body = body_error, resp_BodyErr = None\<rparr>])
       demoClient ''/gone'' False []
     = (Returns (None, Some (APIError \<lparr>StatusCode = 404, Message = ''Not found'',
                   Description = ''Resource not found.'', Err = ''DiskNotFoundError''\<rparr>)),
        [demoRequest ''DELETE'' ''resources'' [(''path'', ''/gone''), (''permanently'', ''false'')] None])"
    using t [of "\<lparr>resp_StatusCode = 404, resp_Body = body_error, resp_BodyErr = None\<rparr>"
        "''/gone''", THEN conjunct2, THEN conjunct2, THEN conjunct2]
    by (simp add: readErrBody_def ReadAll_def scripted_def demo_json_Error_def)
  from a b c show ?thesis by simp
qed

text \<open>
  The claim as stated fails: the answer is 202 with a body, the body is a well-formed
  link, and \<open>Delete\<close> returns an error and no link, because the link is templated.
\<close>

theorem templated_link_counterexample:
  "Delete (scripted [\<lparr>resp_StatusCode = 202, resp_Body = body_link_templated, resp_BodyErr = None\<rparr>])
       demoClient ''/photos'' False []
     = (Returns (None, Some (ErrorString ''unsupported templated link'')),
        [demoRequest ''DELETE'' ''resources'' [(''path'', ''/photos''), (''permanently'', ''false'')] None])"
proof -
  define resp where
    "resp = \<lparr>resp_StatusCode = 202, resp_Body = body_link_templated, resp_BodyErr = None\<rparr>"
  have sent: "newRequest (scripted [resp]) demoClient ''DELETE'' ''resources''
        [(''path'', ''/photos''), (''permanently'', ''false'')] None
      = Returns (demoRequest ''DELETE'' ''resources'' [(''path'', ''/photos''), (''permanently'', ''false'')] None, None)"
    by (simp add: demo_newRequest)
  have answered: "HTTP_Do (scripted [resp]) [] (demoRequest ''DELETE'' ''resources'' [(''path'', ''/photos''), (''permanently'', ''false'')] None) = Inr resp"
    by (simp add: scripted_def)
  have link: "json_Link (scripted [resp]) body_link_templated
      = (Some \<lparr>Href = ''https://cloud-api.yandex.net/v1/disk/operations/{id}'',
                 Method = ''GET'', Templated = True\<rparr>, None)"
    by (simp add: scripted_def demo_json_Link_def body_link_templated_def body_link_operation_def)
  have "Delete (scripted [resp]) demoClient ''/photos'' False []
     = (Returns (None, Some (ErrorString ''unsupported templated link'')),
        [demoRequest ''DELETE'' ''resources'' [(''path'', ''/photos''), (''permanently'', ''false'')] None])"
    unfolding Delete_def
    by (simp add: requestOptionalOp_answered [OF sent answered] readBody_def ReadAll_def)
       (simp add: resp_def link [unfolded resp_def])
  then show ?thesis by (simp only: resp_def)
qed

section \<open>Links that come with an error\<close>

text \<open>
  Claim C10, as the code has it. When the body does not decode and the decoder leaves
  a link that is not nil and not templated, \<open>requestLink\<close> returns that link together
  with the decoding error. Its callers do not pass the pair on: whenever \<open>requestLink\<close>
  returns an error, with or without a link, each of \<open>Copy\<close>, \<open>Move\<close>, \<open>MkDir\<close>,
  \<open>UploadInternet\<close> and \<open>TrashRestore\<close> returns a nil link with that same error, and
  none of the five ever returns a link together with an error.
\<close>

theorem requestLink_returns_both_callers_do_not:
  "(do env c method url vals log = (Returns (body, None), log')
      \<and> json_Link env body = (Some link, Some err) \<and> \<not> Templated link
     \<longrightarrow> requestLink env c method url vals log = (Returns (Some link, Some err), log'))
   \<and> (requestLink env c ''POST'' ''resources/copy''
          (Values_Set ''overwrite'' ''true''
            (Values_Set ''from'' from (Values_Set ''path'' path []))) log
        = (Returns (l, Some err), log')
     \<longrightarrow> Copy env c path from log = (Returns (None, Some err), log'))
   \<and> (requestLink env c ''POST'' ''resources/move''
          (Values_Set ''overwrite'' ''true''
            (Values_Set ''from'' from (Values_Set ''path'' path []))) log
        = (Returns (l, Some err), log')
     \<longrightarrow> Move env c path from log = (Returns (None, Some err), log'))
   \<and> (requestLink env c ''PUT'' ''resources'' (Values_Set ''path'' path []) log
        = (Returns (l, Some err), log')
     \<longrightarrow> MkDir env c path log = (Returns (None, Some err), log'))
   \<and> (requestLink env c ''POST'' ''resources/upload''
          (Values_Set ''url'' uri (Values_Set ''path'' path [])) log
        = (Returns (l, Some err), log')
     \<longrightarrow> UploadInternet env c path uri log = (Returns (None, Some err), log'))
   \<and> (requestLink env c ''PUT'' ''trash/resources/restore''
          (if newPath \<noteq> []
           then Values_Set ''name'' newPath
                  (Values_Set ''path'' path (Values_Set ''overwrite'' ''false'' []))
           else Values_Set ''path'' path (Values_Set ''overwrite'' ''false'' [])) log
        = (Returns (l, Some err), log')
     \<longrightarrow> TrashRestore env c path newPath log = (Returns (None, Some err), log'))
   \<and> fst (Copy env c path from log) \<noteq> Returns (Some link, Some err)
   \<and> fst (Move env c path from log) \<noteq> Returns (Some link, Some err)
   \<and> fst (MkDir env c path log) \<noteq> Returns (Some link, Some err)
   \<and> fst (UploadInternet env c path uri log) \<noteq> Returns (Some link, Some err)
   \<and> fst (TrashRestore env c path newPath log) \<noteq> Returns (Some link, Some err)"
proof (intro conjI impI Copy_never_both Move_never_both MkDir_never_both
      UploadInternet_never_both TrashRestore_never_both)
  assume "do env c method url vals log = (Returns (body, None), log')
      \<and> json_Link env body = (Some link, Some err) \<and> \<not> Templated link"
  then show "requestLink env c method url vals log = (Returns (Some link, Some err), log')"
    by (simp add: requestLink_both)
next
  assume "requestLink env c ''POST'' ''resources/copy''
          (Values_Set ''overwrite'' ''true''
            (Values_Set ''from'' from (Values_Set ''path'' path []))) log
        = (Returns (l, Some err), log')"
  then show "Copy env c path from log = (Returns (None, Some err), log')"
    by (simp add: Copy_def)
next
  assume "requestLink env c ''POST'' ''resources/move''
          (Values_Set ''overwrite'' ''true''
            (Values_Set ''from'' from (Values_Set ''path'' path []))) log
        = (Returns (l, Some err), log')"
  then show "Move env c path from log = (Returns (None, Some err), log')"
    by (simp add: Move_def)
next
  assume "requestLink env c ''PUT'' ''resources'' (Values_Set ''path'' path []) log
        = (Returns (l, Some err), log')"
  then show "MkDir env c path log = (Returns (None, Some err), log')"
    by (simp add: MkDir_def)
next
  assume "requestLink env c ''POST'' ''resources/upload''
          (Values_Set ''url'' uri (Values_Set ''path'' path [])) log
        = (Returns (l, Some err), log')"
  then show "UploadInternet env c path uri log = (Returns (None, Some err), log')"
    by (simp add: UploadInternet_def)
next
  assume "requestLink env c ''PUT'' ''trash/resources/restore''
          (if newPath \<noteq> []
           then Values_Set ''name'' newPath
                  (Values_Set ''path'' path (Values_Set ''overwrite'' ''false'' []))
           else Values_Set ''path'' path (Values_Set ''overwrite'' ''false'' [])) log
        = (Returns (l, Some err), log')"
  then show "TrashRestore env c path newPath log = (Returns (None, Some err), log')"
    by (cases "newPath = []") (simp_all add: TrashRestore_def Let_def)
qed

text \<open>
  The service answers with an HTML page: \<open>requestLink\<close> returns the zero link with the
  decoder's error, and each of the five operations returns that error with a nil link.
\<close>

theorem requestLink_returns_both_callers_do_not_witness:
  "requestLink (scripted [ok body_html]) demoClient ''POST'' ''resources/copy''
       [(''path'', ''/b.txt''), (''from'', ''/a.txt''), (''overwrite'', ''true'')] []
     = (Returns (Some \<lparr>Href = [], Method = [], Templated = False\<rparr>, Some syntax_error),
        [demoRequest ''POST'' ''resources/copy''
           [(''path'', ''/b.txt''), (''from'', ''/a.txt''), (''overwrite'', ''true'')] None])
   \<and> Copy (scripted [ok body_html]) demoClient ''/b.txt'' ''/a.txt'' []
     = (Returns (None, Some syntax_error),
        [demoRequest ''POST'' ''resources/copy''
           [(''path'', ''/b.txt''), (''from'', ''/a.txt''), (''overwrite'', ''true'')] None])
   \<and> Move (scripted [ok body_html]) demoClient ''/b.txt'' ''/a.txt'' []
     = (Returns (None, Some syntax_error),
        [demoRequest ''POST'' ''resources/move''
           [(''path'', ''/b.txt''), (''from'', ''/a.txt''), (''overwrite'', ''true'')] None])
   \<and> MkDir (scripted [ok body_html]) demoClient ''/b.txt'' []
     = (Returns (None, Some syntax_error),
        [demoRequest ''PUT'' ''resources'' [(''path'', ''/b.txt'')] None])
   \<and> UploadInternet (scripted [ok body_html]) demoClient ''/b.txt'' ''http://example.org/a'' []
     = (Returns (None, Some syntax_error),
        [demoRequest ''POST'' ''resources/upload''
           [(''path'', ''/b.txt''), (''url'', ''http://example.org/a'')] None])
   \<and> TrashRestore (scripted [ok body_html]) demoClient ''/b.txt'' ''/c.txt'' []
     = (Returns (None, Some syntax_error),
        [demoRequest ''PUT'' ''trash/resources/restore''
           [(''overwrite'', ''false''), (''path'', ''/b.txt''), (''name'', ''/c.txt'')] None])"
proof -
  define vals where
    "vals = [(''path'', ''/b.txt''), (''from'', ''/a.txt''), (''overwrite'', ''true'')]"
  have sent: "do (scripted [ok body_html]) demoClient ''POST'' ''resources/copy'' vals []
      = (Returns (body_html, None), [demoRequest ''POST'' ''resources/copy'' vals None])"
    by (simp add: demo_do_first readBody_ok)
  have decoded: "json_Link (scripted [ok body_html]) body_html
      = (Some \<lparr>Href = [], Method = [], Templated = False\<rparr>, Some syntax_error)"
    by (simp add: scripted_def demo_json_Link_def body_html_def body_link_operation_def
        body_link_templated_def body_link_upload_def)
  note t = requestLink_returns_both_callers_do_not
    [of "scripted [ok body_html]" demoClient _ _ _ "[]" _ _
        "\<lparr>Href = [], Method = [], Templated = False\<rparr>" syntax_error
        "''/a.txt''" "''/b.txt''" "Some \<lparr>Href = [], Method = [], Templated = False\<rparr>"
        "''http://example.org/a''" "''/c.txt''"]
  have both: "requestLink (scripted [ok body_html]) demoClient ''POST'' ''resources/copy'' vals []
     = (Returns (Some \<lparr>Href = [], Method = [], Templated = False\<rparr>, Some syntax_error),
        [demoRequest ''POST'' ''resources/copy'' vals None])"
    using requestLink_returns_both_callers_do_not
      [of "scripted [ok body_html]" demoClient "''POST''" "''resources/copy''" vals "[]"
          body_html "[demoRequest ''POST'' ''resources/copy'' vals None]"
          "\<lparr>Href = [], Method = [], Templated = False\<rparr>" syntax_error,
        THEN conjunct1] sent decoded by simp
  have copy: "Copy (scripted [ok body_html]) demoClient ''/b.txt'' ''/a.txt'' []
     = (Returns (None, Some syntax_error), [demoRequest ''POST'' ''resources/copy'' vals None])"
    using t [THEN conjunct2, THEN conjunct1] by (simp add: demo_requestLink_html vals_def)
  have move: "Move (scripted [ok body_html]) demoClient ''/b.txt'' ''/a.txt'' []
     = (Returns (None, Some syntax_error), [demoRequest ''POST'' ''resources/move'' vals None])"
    using t [THEN conjunct2, THEN conjunct2, THEN conjunct1]
    by (simp add: demo_requestLink_html vals_def)
  have mkdir: "MkDir (scripted [ok body_html]) demoClient ''/b.txt'' []
     = (Returns (None, Some syntax_error),
        [demoRequest ''PUT'' ''resources'' [(''path'', ''/b.txt'')] None])"
    using t [THEN conjunct2, THEN conjunct2, THEN conjunct2, THEN conjunct1]
    by (simp add: demo_requestLink_html)
  have upload: "UploadInternet (scripted [ok body_html]) demoClient ''/b.txt''
       ''http://example.org/a'' []
     = (Returns (None, Some syntax_error),
        [demoRequest ''POST'' ''resources/upload''
           [(''path'', ''/b.txt''), (''url'', ''http://example.org/a'')] None])"
    using t [THEN conjunct2, THEN conjunct2, THEN conjunct2, THEN conjunct2, THEN conjunct1]
    by (simp add: demo_requestLink_html)
  have restore: "TrashRestore (scripted [ok body_html]) demoClient ''/b.txt'' ''/c.txt'' []
     = (Returns (None, Some syntax_error),
        [demoRequest ''PUT'' ''trash/resources/restore''
           [(''overwrite'', ''false''), (''path'', ''/b.txt''), (''name'', ''/c.txt'')] None])"
    using t [THEN conjunct2, THEN conjunct2, THEN conjunct2, THEN conjunct2, THEN conjunct2,
        THEN conjunct1]
    by (simp add: demo_requestLink_html)
  from both copy move mkdir upload restore show ?thesis by (simp only: vals_def simp_thms)
qed

text \<open>
  The claim as stated fails in its second half: no call of the five operations returns
  both a link and an error, whatever the server and the decoders do.
\<close>

theorem link_and_error_together_counterexample:
  "\<not> (\<exists>env c path from log link err.
          fst (Copy env c path from log) = Returns (Some link, Some err))
   \<and> \<not> (\<exists>env c path from log link err.
          fst (Move env c path from log) = Returns (Some link, Some err))
   \<and> \<not> (\<exists>env c path log link err.
          fst (MkDir env c path log) = Returns (Some link, Some err))
   \<and> \<not> (\<exists>env c path uri log link err.
          fst (UploadInternet env c path uri log) = Returns (Some link, Some err))
   \<and> \<not> (\<exists>env c path newPath log link err.
          fst (TrashRestore env c path newPath log) = Returns (Some link, Some err))"
  by (simp add: Copy_never_both Move_never_both MkDir_never_both UploadInternet_never_both
      TrashRestore_never_both)

section \<open>List\<close>

text \<open>
  Claim C7. Whenever the answer to the request of \<open>List\<close> decodes to a resource of a
  kind other than directory, \<open>List\<close> returns no list and the error
  \<open>not a directory\<close>: it returns, it does not panic.
\<close>

theorem List_not_a_directory:
  assumes "do env c ''GET'' ''resources''
             (Values_Set ''sort'' ''name''
               (Values_Set ''limit'' (Itoa limit)
                 (Values_Set ''offset'' (Itoa offset)
                   (Values_Set ''path'' path [])))) log = (Returns (body, None), log')"
    and "json_Resource env body = (res, None)"
    and "Type res \<noteq> ResourceTypeDir"
  shows "List env c path offset limit log
           = (Returns (None, Some (ErrorString ''not a directory'')), log')"
  using assms by (simp add: List_decoded)

text \<open>The path of a file.\<close>

theorem List_not_a_directory_witness:
  "List (scripted [ok body_file]) demoClient ''/a.txt'' 0 20 []
     = (Returns (None, Some (ErrorString ''not a directory'')),
        [demoRequest ''GET'' ''resources''
           [(''path'', ''/a.txt''), (''offset'', ''0''), (''limit'', ''20''), (''sort'', ''name'')]
           None])"
proof -
  have sent: "do (scripted [ok body_file]) demoClient ''GET'' ''resources''
             (Values_Set ''sort'' ''name''
               (Values_Set ''limit'' (Itoa 20)
                 (Values_Set ''offset'' (Itoa 0)
                   (Values_Set ''path'' ''/a.txt'' [])))) []
     = (Returns (body_file, None),
        [demoRequest ''GET'' ''resources''
           [(''path'', ''/a.txt''), (''offset'', ''0''), (''limit'', ''20''), (''sort'', ''name'')]
           None])"
    by (simp add: demo_do_first readBody_ok Itoa_0 Itoa_20)
  have decoded: "json_Resource (scripted [ok body_file]) body_file
      = (Resource ResourceTypeFile ''a.txt'' [] [] ''disk:/a.txt'' [] 3 None, None)"
    by (simp add: scripted_def demo_json_Resource_def)
  show ?thesis
    using List_not_a_directory [OF sent decoded] by simp
qed

text \<open>
  Claim C9. Whenever the answer decodes to a directory without an embedded list,
  \<open>List\<close> returns neither a list nor an error; \<open>ListAll\<close>, which asks for the first
  page with offset 0 and limit 100, then reads through the nil list and panics.
\<close>

theorem List_nil_without_error:
  assumes "do env c ''GET'' ''resources''
             (Values_Set ''sort'' ''name''
               (Values_Set ''limit'' (Itoa limit)
                 (Values_Set ''offset'' (Itoa offset)
                   (Values_Set ''path'' path [])))) log = (Returns (body, None), log')"
    and "json_Resource env body = (res, None)"
    and "Type res = ResourceTypeDir"
    and "SubList res = None"
  shows "List env c path offset limit log = (Returns (None, None), log')
         \<and> (offset = 0 \<and> limit = 100 \<longrightarrow> ListAll env c path log = Some (Panics, log'))"
proof -
  have l: "List env c path offset limit log = (Returns (None, None), log')"
    using assms by (simp add: List_decoded)
  have "ListAll env c path log = Some (Panics, log')" if "offset = 0" "limit = 100"
    unfolding ListAll_def
    by (subst ListAll_loop.simps) (use l that in simp)
  with l show ?thesis by simp
qed

text \<open>A directory whose JSON has no \<open>_embedded\<close> field.\<close>

theorem List_nil_without_error_witness:
  "List (scripted [ok body_dir_bare]) demoClient ''/photos'' 0 100 []
     = (Returns (None, None),
        [demoRequest ''GET'' ''resources''
           [(''path'', ''/photos''), (''offset'', ''0''), (''limit'', ''100''), (''sort'', ''name'')]
           None])
   \<and> ListAll (scripted [ok body_dir_bare]) demoClient ''/photos'' []
     = Some (Panics,
        [demoRequest ''GET'' ''resources''
           [(''path'', ''/photos''), (''offset'', ''0''), (''limit'', ''100''), (''sort'', ''name'')]
           None])"
proof -
  have sent: "do (scripted [ok body_dir_bare]) demoClient ''GET'' ''resources''
             (Values_Set ''sort'' ''name''
               (Values_Set ''limit'' (Itoa 100)
                 (Values_Set ''offset'' (Itoa 0)
                   (Values_Set ''path'' ''/photos'' [])))) []
     = (Returns (body_dir_bare, None),
        [demoRequest ''GET'' ''resources''
           [(''path'', ''/photos''), (''offset'', ''0''), (''limit'', ''100''), (''sort'', ''name'')]
           None])"
    by (simp add: demo_do_first readBody_ok Itoa_0 Itoa_100)
  have decoded: "json_Resource (scripted [ok body_dir_bare]) body_dir_bare
      = (Resource ResourceTypeDir ''photos'' [] [] ''disk:/photos'' [] 0 None, None)"
    by (simp add: scripted_def demo_json_Resource_def body_dir_bare_def body_file_def)
  show ?thesis
    using List_nil_without_error [OF sent decoded] by simp
qed

section \<open>OpStatus\<close>

text \<open>
  Claim C4. Once the link names an operation, the request was built and answered, and
  the body was read and decoded to the status string \<open>st\<close>: \<open>OpStatus\<close> returns
  \<open>StatusSuccess\<close> for \<open>success\<close>, \<open>StatusFailure\<close> for \<open>failure\<close> and
  \<open>StatusInProgress\<close> for \<open>in-progress\<close>, each without an error, and for any other
  string it returns the error \<open>invalid status\<close> followed by the string.
\<close>

theorem OpStatus_maps_status:
  assumes isop: "IsOperation l"
    and sent: "newRequest env c (Method l) ''operations''
                 (Values_Set ''id'' (Operation (url_RequestURI env) l) []) None = Returns (req, None)"
    and answered: "HTTP_Do env log req = Inr resp"
    and body: "readBody env resp = (body, None)"
    and decoded: "json_Status env body = (st, None)"
  shows "(st = ''success''
            \<longrightarrow> OpStatus env c (Some l) log = (Returns (StatusSuccess, None), log @ [req]))
    \<and> (st = ''failure''
            \<longrightarrow> OpStatus env c (Some l) log = (Returns (StatusFailure, None), log @ [req]))
    \<and> (st = ''in-progress''
            \<longrightarrow> OpStatus env c (Some l) log = (Returns (StatusInProgress, None), log @ [req]))
    \<and> (st \<noteq> ''success'' \<and> st \<noteq> ''failure'' \<and> st \<noteq> ''in-progress''
            \<longrightarrow> OpStatus env c (Some l) log
                = (Returns (StatusFailure, Some (ErrorString (''invalid status '' @ st))),
                   log @ [req]))"
proof -
  have "OpStatus env c (Some l) log =
      (if st = ''success'' then (Returns (StatusSuccess, None), log @ [req])
       else if st = ''failure'' then (Returns (StatusFailure, None), log @ [req])
       else if st = ''in-progress'' then (Returns (StatusInProgress, None), log @ [req])
       else (Returns (StatusFailure, Some (ErrorString (''invalid status '' @ st))), log @ [req]))"
    using assms by (simp add: OpStatus_def Do_def Let_def)
  then show ?thesis by simp
qed

text \<open>The operation 123, answered with \<open>success\<close> and with \<open>queued\<close>.\<close>

theorem OpStatus_maps_status_witness:
  "OpStatus (scripted [ok body_status_success]) demoClient (Some operation123) []
     = (Returns (StatusSuccess, None), [demoRequest ''GET'' ''operations'' [(''id'', ''123'')] None])
   \<and> OpStatus (scripted [ok body_status_queued]) demoClient (Some operation123) []
     = (Returns (StatusFailure, Some (ErrorString ''invalid status queued'')),
        [demoRequest ''GET'' ''operations'' [(''id'', ''123'')] None])"
proof -
  have isop: "IsOperation operation123"
    using operation123_id by simp
  have sent: "newRequest (scripted script) demoClient (Method operation123) ''operations''
       (Values_Set ''id'' (Operation (url_RequestURI (scripted script)) operation123) []) None
     = Returns (demoRequest ''GET'' ''operations'' [(''id'', ''123'')] None, None)" for script
    using operation123_id by (simp add: demo_newRequest) (simp add: scripted_def operation123_def)
  have s1: "json_Status (scripted script) body_status_success = (''success'', None)" for script
    by (simp add: scripted_def demo_json_Status_def)
  have s2: "json_Status (scripted script) body_status_queued = (''queued'', None)" for script
    by (simp add: scripted_def demo_json_Status_def body_status_queued_def body_status_success_def)
  have a: "OpStatus (scripted [ok body_status_success]) demoClient (Some operation123) []
     = (Returns (StatusSuccess, None), [demoRequest ''GET'' ''operations'' [(''id'', ''123'')] None])"
    using OpStatus_maps_status [OF isop sent scripted_first readBody_ok s1, THEN conjunct1]
    by simp
  have b: "OpStatus (scripted [ok body_status_queued]) demoClient (Some operation123) []
     = (Returns (StatusFailure, Some (ErrorString ''invalid status queued'')),
        [demoRequest ''GET'' ''operations'' [(''id'', ''123'')] None])"
    using OpStatus_maps_status [OF isop sent scripted_first readBody_ok s2,
        THEN conjunct2, THEN conjunct2, THEN conjunct2]
    by simp
  from a b show ?thesis by simp
qed

section \<open>Upload\<close>

text \<open>
  Claim C6. Once \<open>requestLink\<close> has returned an upload link and no error,
  \<open>Upload\<close> returns a nil error exactly when the second request was built and
  answered with status 201; answered with any other status, \<open>Upload\<close> returns the
  error \<open>server responsed\<close> followed by the status.
\<close>

theorem Upload_succeeds_on_201:
  assumes link: "requestLink env c ''GET'' ''resources/upload''
                   (Values_Set ''overwrite'' ''true'' (Values_Set ''path'' path [])) log
                 = (Returns (Some link, None), log')"
  shows "(fst (Upload env c path r log) = Returns None
           \<longleftrightarrow> (\<exists>req resp.
                 newRequest env c (Method link) (Href link) [] (Some r) = Returns (req, None)
                 \<and> HTTP_Do env log' req = Inr resp \<and> resp_StatusCode resp = 201))
    \<and> (\<forall>req resp.
          newRequest env c (Method link) (Href link) [] (Some r) = Returns (req, None)
          \<and> HTTP_Do env log' req = Inr resp \<and> resp_StatusCode resp \<noteq> 201
         \<longrightarrow> Upload env c path r log
             = (Returns (Some (ErrorString (''server responsed '' @ Itoa (resp_StatusCode resp)))),
                log' @ [req]))"
proof -
  from newRequest_cases [of env c "Method link" "Href link" "[]" "Some r"]
  show ?thesis
  proof
    assume p: "newRequest env c (Method link) (Href link) [] (Some r) = Panics"
    with link show ?thesis by (simp add: Upload_def)
  next
    assume "\<exists>req. newRequest env c (Method link) (Href link) [] (Some r) = Returns (req, None)"
    then obtain req where
      q: "newRequest env c (Method link) (Href link) [] (Some r) = Returns (req, None)" ..
    show ?thesis
    proof (cases "HTTP_Do env log' req")
      case (Inl e)
      with link q show ?thesis by (simp add: Upload_def Do_def)
    next
      case (Inr resp)
      with link q show ?thesis by (simp add: Upload_def Do_def)
    qed
  qed
qed

text \<open>An upload answered with 201, and one answered with 500.\<close>

theorem Upload_succeeds_on_201_witness:
  "fst (Upload (scripted [ok body_link_upload,
                          \<lparr>resp_StatusCode = 201, resp_Body = [], resp_BodyErr = None\<rparr>])
          demoClient ''/a.txt'' ''abc'' []) = Returns None
   \<and> fst (Upload (scripted [ok body_link_upload,
                          \<lparr>resp_StatusCode = 500, resp_Body = [], resp_BodyErr = None\<rparr>])
          demoClient ''/a.txt'' ''abc'' [])
       = Returns (Some (ErrorString ''server responsed 500''))"
proof -
  have a: "fst (Upload (scripted [ok body_link_upload,
                          \<lparr>resp_StatusCode = 201, resp_Body = [], resp_BodyErr = None\<rparr>])
          demoClient ''/a.txt'' ''abc'' []) = Returns None"
    using Upload_succeeds_on_201 [OF demo_upload_link, THEN conjunct1]
    by (simp add: demo_newRequest scripted_second)
  have b: "fst (Upload (scripted [ok body_link_upload,
                          \<lparr>resp_StatusCode = 500, resp_Body = [], resp_BodyErr = None\<rparr>])
          demoClient ''/a.txt'' ''abc'' [])
       = Returns (Some (ErrorString ''server responsed 500''))"
    using Upload_succeeds_on_201 [OF demo_upload_link, THEN conjunct2, THEN spec, THEN spec,
        of _ "''abc''" "demoRequest (Method uploadLink) (Href uploadLink) [] (Some ''abc'')"
           "\<lparr>resp_StatusCode = 500, resp_Body = [], resp_BodyErr = None\<rparr>"]
    by (simp add: demo_newRequest scripted_second Itoa_500)
  from a b show ?thesis by simp
qed

section \<open>ListAll\<close>

text \<open>The pages of a list, cut at every hundredth item, put the list together again.\<close>

lemma concat_pages_take:
  "concat (map (\<lambda>i. take n (drop (n * i) xs)) [0..<m]) = take (n * m) xs"
proof (induction m)
  case 0
  show ?case by simp
next
  case (Suc m)
  have "take (n * m) xs @ take n (drop (n * m) xs) = take (n * m + n) xs"
    by (simp add: take_add)
  with Suc show ?case by (simp add: add.commute)
qed

lemma ListAll_loop_pages:
  assumes pages: "\<forall>i\<le>k. List env c path (100 * int i) 100 (lg i)
                          = (Returns (Some (pg i), None), lg (Suc i))"
    and full: "\<forall>i<k. 100 \<le> length (Items (pg i))"
    and short: "length (Items (pg k)) < 100"
    and j: "j \<le> k"
  shows "ListAll_loop env c path acc (100 * int j) (lg j) =
     Some (Returns (Some (ResourceList
                       (Items acc @ concat (map (\<lambda>i. Items (pg i)) [j..<Suc k]))
                       (int (length (Items acc @ concat (map (\<lambda>i. Items (pg i)) [j..<Suc k]))))
                       (Offset acc)), None), lg (Suc k))"
  using j
proof (induction j arbitrary: acc rule: inc_induct)
  case base
  from pages have "List env c path (100 * int k) 100 (lg k)
      = (Returns (Some (pg k), None), lg (Suc k))" by simp
  with short show ?case
    by (subst ListAll_loop.simps) simp
next
  case (step n)
  from pages step.hyps have page: "List env c path (100 * int n) 100 (lg n)
      = (Returns (Some (pg n), None), lg (Suc n))" by simp
  from full step.hyps have long: "100 \<le> length (Items (pg n))" by simp
  have next_offset: "100 * int n + 100 = 100 * int (Suc n)" by simp
  have rest: "[n..<Suc k] = n # [Suc n..<Suc k]"
    using step.hyps by (simp add: upt_conv_Cons)
  define acc' where "acc' = ResourceList (Items acc @ Items (pg n)) (Limit acc) (Offset acc)"
  have "ListAll_loop env c path acc (100 * int n) (lg n)
      = ListAll_loop env c path acc' (100 * int n + 100) (lg (Suc n))"
  proof -
    from long have "Items (pg n) \<noteq> []" and "\<not> length (Items (pg n)) < 100" by auto
    then show ?thesis
      by (simp add: ListAll_loop.simps [of env c path acc "100 * int n" "lg n"] page Let_def
          acc'_def)
  qed
  also have "\<dots> = ListAll_loop env c path acc' (100 * int (Suc n)) (lg (Suc n))"
    by (simp only: next_offset)
  finally have unfolded: "ListAll_loop env c path acc (100 * int n) (lg n)
      = ListAll_loop env c path acc' (100 * int (Suc n)) (lg (Suc n))" .
  have items: "Items acc' @ concat (map (\<lambda>i. Items (pg i)) [Suc n..<Suc k])
      = Items acc @ concat (map (\<lambda>i. Items (pg i)) [n..<Suc k])"
    unfolding rest by (simp add: acc'_def del: upt_Suc)
  have offset: "Offset acc' = Offset acc"
    by (simp add: acc'_def)
  show ?case
    by (simp only: unfolded step.IH [of acc'] items offset)
qed

text \<open>
  Claim C1. Let the calls of \<open>List\<close> with page size 100 at the offsets 0, 100, ...,
  100 k succeed with the pages \<open>pg 0\<close>, ..., \<open>pg k\<close>, each call starting from the log
  of requests the call before it left (\<open>lg\<close>); let the pages before the last hold at
  least 100 items and the last one fewer than 100 (possibly none). Then \<open>ListAll\<close>
  returns, without an error, the list whose items are the pages put one after the
  other in that order, whose \<open>Limit\<close> is the number of those items and whose \<open>Offset\<close>
  is 0. It has sent exactly \<open>k + 1\<close> requests: every page of 100 items or more is
  followed by one more request, and the first shorter page is the last. When the pages
  are the slices of a directory listing \<open>items\<close>, the result is \<open>items\<close> itself:
  nothing twice, nothing left out.
\<close>

theorem ListAll_concatenates_pages:
  assumes pages: "\<forall>i\<le>k. List env c path (100 * int i) 100 (lg i)
                          = (Returns (Some (pg i), None), lg (Suc i))"
    and full: "\<forall>i<k. 100 \<le> length (Items (pg i))"
    and short: "length (Items (pg k)) < 100"
  shows "ListAll env c path (lg 0) =
           Some (Returns (Some (ResourceList
                   (concat (map (\<lambda>i. Items (pg i)) [0..<Suc k]))
                   (int (length (concat (map (\<lambda>i. Items (pg i)) [0..<Suc k]))))
                   0), None), lg (Suc k))
         \<and> length (lg (Suc k)) = length (lg 0) + (k + 1)
         \<and> (\<forall>items. (\<forall>i\<le>k. Items (pg i) = take 100 (drop (100 * i) items))
               \<longrightarrow> concat (map (\<lambda>i. Items (pg i)) [0..<Suc k]) = items)"
proof (intro conjI allI impI)
  show "ListAll env c path (lg 0) =
           Some (Returns (Some (ResourceList
                   (concat (map (\<lambda>i. Items (pg i)) [0..<Suc k]))
                   (int (length (concat (map (\<lambda>i. Items (pg i)) [0..<Suc k]))))
                   0), None), lg (Suc k))"
    using ListAll_loop_pages [OF pages full short, of 0 "ResourceList [] 0 0"]
    by (simp add: ListAll_def)
next
  have "i \<le> k \<Longrightarrow> length (lg (Suc i)) = length (lg 0) + (i + 1)" for i
  proof (induction i)
    case 0
    with pages have "List env c path (100 * int 0) 100 (lg 0)
        = (Returns (Some (pg 0), None), lg (Suc 0))" by blast
    then show ?case by (simp add: List_log)
  next
    case (Suc i)
    with pages have "List env c path (100 * int (Suc i)) 100 (lg (Suc i))
        = (Returns (Some (pg (Suc i)), None), lg (Suc (Suc i)))" by blast
    then have "length (lg (Suc (Suc i))) = Suc (length (lg (Suc i)))"
      by (rule List_log)
    with Suc show ?case by simp
  qed
  then show "length (lg (Suc k)) = length (lg 0) + (k + 1)" by simp
next
  fix items
  assume dir: "\<forall>i\<le>k. Items (pg i) = take 100 (drop (100 * i) items)"
  then have "map (\<lambda>i. Items (pg i)) [0..<Suc k]
           = map (\<lambda>i. take 100 (drop (100 * i) items)) [0..<Suc k]"
    by (intro map_cong) auto
  then have all: "concat (map (\<lambda>i. Items (pg i)) [0..<Suc k]) = take (100 * Suc k) items"
    by (simp only: concat_pages_take)
  from dir short have "length (take 100 (drop (100 * k) items)) < 100" by simp
  then have "length items < 100 * Suc k" by simp
  with all show "concat (map (\<lambda>i. Items (pg i)) [0..<Suc k]) = items" by simp
qed

text \<open>A directory of 101 files: a full page at offset 0, then a page of one item.\<close>

theorem ListAll_concatenates_pages_witness:
  "ListAll (scripted [ok body_page0, ok body_page1]) demoClient ''/photos'' []
     = Some (Returns (Some (ResourceList (replicate 100 (Some photo) @ [Some photo]) 101 0), None),
             [listRequest ''0'', listRequest ''100''])"
proof -
  define lg where "lg = (\<lambda>i. take i [listRequest ''0'', listRequest ''100''])"
  define pg where "pg = (\<lambda>i::nat. if i = 0 then page0 else page1)"
  have pages: "\<forall>i\<le>1. List (scripted [ok body_page0, ok body_page1]) demoClient ''/photos''
                         (100 * int i) 100 (lg i)
                     = (Returns (Some (pg i), None), lg (Suc i))"
  proof (intro allI impI)
    fix i :: nat
    assume "i \<le> 1"
    then have "i = 0 \<or> i = 1" by arith
    then show "List (scripted [ok body_page0, ok body_page1]) demoClient ''/photos''
                         (100 * int i) 100 (lg i)
                     = (Returns (Some (pg i), None), lg (Suc i))"
      by (auto simp: lg_def pg_def demo_first_page demo_second_page)
  qed
  have full: "\<forall>i<1. 100 \<le> length (Items (pg i))"
    by (simp add: pg_def page0_def)
  have short: "length (Items (pg 1)) < 100"
    by (simp add: pg_def page1_def)
  have "[0..<Suc 1] = [0, 1]" by (simp add: upt_rec)
  with ListAll_concatenates_pages [OF pages full short, THEN conjunct1]
  show ?thesis
    by (simp add: lg_def pg_def page0_def page1_def)
qed

end
